theory Spec2Isabelle
  imports Complex_Main "HOL-Library.Sublist"
begin

section \<open>Python values\<close>

text \<open>
  Truthiness as Python evaluates it in a condition: \<open>None\<close> is false, a number is
  false when it is zero, a string or a list when it is empty. Floats are held as the real
  numbers they denote (comparison and truthiness are exact on them; NaN is left out).
\<close>

definition truthy :: "'a::zero option \<Rightarrow> bool" where
  "truthy v = (case v of None \<Rightarrow> False | Some n \<Rightarrow> n \<noteq> 0)"

definition truthy_seq :: "'a list option \<Rightarrow> bool" where
  "truthy_seq v = (case v of None \<Rightarrow> False | Some s \<Rightarrow> s \<noteq> [])"

text \<open>\<open>v or d\<close>: the value when it is true, the default otherwise.\<close>

definition py_or :: "'a::zero option \<Rightarrow> 'a \<Rightarrow> 'a" where
  "py_or v d = (case v of None \<Rightarrow> d | Some n \<Rightarrow> if n = 0 then d else n)"

definition py_or_seq :: "'a list option \<Rightarrow> 'a list \<Rightarrow> 'a list" where
  "py_or_seq v d = (case v of None \<Rightarrow> d | Some s \<Rightarrow> if s = [] then d else s)"

text \<open>\<open>a < b\<close> on two values that the guards before it have shown to be present.\<close>

definition opt_less :: "'a::ord option \<Rightarrow> 'a option \<Rightarrow> bool" where
  "opt_less a b = (case a of None \<Rightarrow> False
                   | Some x \<Rightarrow> (case b of None \<Rightarrow> False | Some y \<Rightarrow> x < y))"

text \<open>\<open>a in xs\<close> on two values that the guards before it have shown to be present.\<close>

definition opt_in :: "'a option \<Rightarrow> 'a list option \<Rightarrow> bool" where
  "opt_in a xs = (case a of None \<Rightarrow> False
                 | Some x \<Rightarrow> (case xs of None \<Rightarrow> False | Some l \<Rightarrow> x \<in> set l))"

text \<open>\<open>xs[:n]\<close>: a negative bound counts from the end.\<close>

definition py_slice_to :: "'a list \<Rightarrow> int \<Rightarrow> 'a list" where
  "py_slice_to xs n = (if 0 \<le> n then take (nat n) xs else take (length xs - nat (- n)) xs)"

section \<open>Data model\<close>

text \<open>
  Modelled from the spec: the record types of \<open>jfc.models\<close> (media items, filters,
  schedules, collection definitions, collection items, collections), whose declarations
  are not among the sources. Each record has the fields that the spec's data model lists
  and that the services and clients read or set; an optional field is an \<open>option\<close>, and
  the four schedule types and the media kinds are the ones the code names. The fields a
  \<open>CollectionItem\<close> copies from its \<open>MediaItem\<close> carry the prefix \<open>ci_\<close>, those of a
  \<open>LibraryItem\<close> the prefix \<open>lib_\<close>.
\<close>

record MediaItem =
  title :: string
  year :: "int option"
  tmdb_id :: "int option"
  imdb_id :: "string option"
  tvdb_id :: "int option"
  vote_average :: "real option"
  vote_count :: "int option"
  genres :: "string list"
  original_country :: "string option"

record CollectionFilter =
  year_gte :: "int option"
  year_lte :: "int option"
  vote_average_gte :: "real option"
  critic_rating_gte :: "real option"
  tmdb_vote_count_gte :: "int option"
  country_not :: "string list option"
  origin_country_not :: "string list option"

datatype MediaType = MOVIE | SERIES | SEASON | EPISODE

datatype ScheduleType = DAILY | WEEKLY | MONTHLY | NEVER

record CollectionSchedule =
  schedule_type :: ScheduleType
  day_of_week :: "string option"
  day_of_month :: "int option"

text \<open>
  The values of the two dictionary-valued options (\<open>tmdb_discover\<close>, \<open>trakt_chart\<close>);
  a dictionary is an association list read by \<open>dict_get\<close>.
\<close>

datatype pyval = PyInt int | PyStr string | PyFloat real

type_synonym pydict = "(string \<times> pyval) list"

definition dict_get :: "pydict \<Rightarrow> string \<Rightarrow> pyval \<Rightarrow> pyval" where
  "dict_get d k dflt = (case map_of d k of None \<Rightarrow> dflt | Some v \<Rightarrow> v)"

record CollectionConfig =
  name :: string
  summary :: "string option"
  sort_title :: "string option"
  tmdb_trending_weekly :: "int option"
  tmdb_trending_daily :: "int option"
  tmdb_popular :: "int option"
  tmdb_discover :: "pydict option"
  trakt_trending :: "int option"
  trakt_popular :: "int option"
  trakt_chart :: "pydict option"
  filters :: CollectionFilter
  limit :: "int option"
  schedule :: CollectionSchedule
  item_radarr_tag :: "string option"
  item_sonarr_tag :: "string option"

record LibraryItem =
  lib_jellyfin_id :: string
  lib_title :: string

record CollectionItem =
  ci_title :: string
  ci_year :: "int option"
  ci_tmdb_id :: "int option"
  ci_imdb_id :: "string option"
  ci_tvdb_id :: "int option"
  jellyfin_id :: "string option"
  matched :: bool
  in_library :: bool

record Collection =
  config :: CollectionConfig
  library_name :: string
  items :: "CollectionItem list"

section \<open>Provider aggregator: deduplication\<close>

text \<open>
  The loop that ends \<open>_fetch_items\<close>: \<open>seen_ids\<close> and \<open>unique_items\<close> are its two
  accumulators.
\<close>

fun dedup_loop :: "MediaItem list \<Rightarrow> int set \<Rightarrow> MediaItem list \<Rightarrow> MediaItem list" where
  "dedup_loop [] seen_ids unique_items = unique_items"
| "dedup_loop (item # rest) seen_ids unique_items =
     (case tmdb_id item of
        None \<Rightarrow> dedup_loop rest seen_ids unique_items
      | Some i \<Rightarrow>
          if i \<noteq> 0 \<and> i \<notin> seen_ids
          then dedup_loop rest (insert i seen_ids) (unique_items @ [item])
          else dedup_loop rest seen_ids unique_items)"

definition deduplicate :: "MediaItem list \<Rightarrow> MediaItem list" where
  "deduplicate xs = dedup_loop xs {} []"

section \<open>Filter pipeline\<close>

text \<open>
  The body of the loop of \<open>_apply_filters\<close> up to \<open>filtered.append(item)\<close>: true when
  one of its \<open>continue\<close> statements is reached, the checks in the order of the source.
\<close>

definition continues :: "CollectionFilter \<Rightarrow> MediaItem \<Rightarrow> bool" where
  "continues fs item =
     (if truthy (year_gte fs) \<and> truthy (year item)
          \<and> opt_less (year item) (year_gte fs) then True
      else if truthy (year_lte fs) \<and> truthy (year item)
          \<and> opt_less (year_lte fs) (year item) then True
      else if truthy (vote_average_gte fs) \<and> truthy (vote_average item)
          \<and> opt_less (vote_average item) (vote_average_gte fs) then True
      else if truthy (critic_rating_gte fs) \<and> truthy (vote_average item)
          \<and> opt_less (vote_average item) (critic_rating_gte fs) then True
      else if truthy (tmdb_vote_count_gte fs) \<and> truthy (vote_count item)
          \<and> opt_less (vote_count item) (tmdb_vote_count_gte fs) then True
      else if truthy_seq (country_not fs) \<and> truthy_seq (original_country item)
          \<and> opt_in (original_country item) (country_not fs) then True
      else if truthy_seq (origin_country_not fs) \<and> truthy_seq (original_country item)
          \<and> opt_in (original_country item) (origin_country_not fs) then True
      else False)"

fun filter_loop :: "CollectionFilter \<Rightarrow> MediaItem list \<Rightarrow> MediaItem list \<Rightarrow> MediaItem list" where
  "filter_loop fs [] filtered = filtered"
| "filter_loop fs (item # rest) filtered =
     (if continues fs item then filter_loop fs rest filtered
      else filter_loop fs rest (filtered @ [item]))"

definition apply_filters :: "MediaItem list \<Rightarrow> CollectionConfig \<Rightarrow> MediaItem list" where
  "apply_filters xs cfg =
     (let filtered = filter_loop (filters cfg) xs []
      in case limit cfg of
           None \<Rightarrow> filtered
         | Some n \<Rightarrow> if n \<noteq> 0 then py_slice_to filtered n else filtered)"

section \<open>Exceptions and awaited calls\<close>

text \<open>
  Every call of a collaborator is awaited and may raise. The exceptions that reach the
  orchestrator are the ones \<open>httpx\<close> raises: a transport error when no response arrives,
  and \<open>raise_for_status\<close> on a response whose status is not a success (2xx). A
  collaborator (a server reached over HTTP) is a record of what it holds, a log of the
  requests it was sent, and \<open>fault\<close>, which says for each request whether the server
  answers it as the endpoint documents (\<open>None\<close>), answers it with the given status code,
  or the transport fails. A request always appears in the log. A response read with
  \<open>raise_for_status\<close> carries the server's data whenever its status is a success; a write
  takes effect on the server exactly when the response has the status the client takes
  for success.
\<close>

datatype exn = HTTPStatusError nat | ConnectError

datatype fault = Status nat | Transport

type_synonym ('s, 'a) action = "'s \<Rightarrow> (exn + 'a) \<times> 's"

definition await :: "('s, 'a) action \<Rightarrow> ('a \<Rightarrow> ('s, 'b) action) \<Rightarrow> ('s, 'b) action" where
  "await m f s = (case m s of (Inl e, s') \<Rightarrow> (Inl e, s') | (Inr a, s') \<Rightarrow> f a s')"

definition return :: "'a \<Rightarrow> ('s, 'a) action" where
  "return a s = (Inr a, s)"

text \<open>
  The response to a request, as far as the clients read it: its status code. \<open>ok\<close> is the
  status the endpoint documents.
\<close>

definition response :: "nat \<Rightarrow> fault option \<Rightarrow> exn + nat" where
  "response ok f = (case f of None \<Rightarrow> Inr ok
                    | Some (Status status_code) \<Rightarrow> Inr status_code
                    | Some Transport \<Rightarrow> Inl ConnectError)"

definition is_success :: "nat \<Rightarrow> bool" where
  "is_success status_code \<longleftrightarrow> 200 \<le> status_code \<and> status_code < 300"

definition raise_for_status :: "nat \<Rightarrow> ('s, unit) action" where
  "raise_for_status status_code s =
     (if is_success status_code then (Inr (), s) else (Inl (HTTPStatusError status_code), s))"

text \<open>\<open>response.json()\<close>: what the server holds, read by \<open>body\<close>.\<close>

definition json :: "('s \<Rightarrow> 'a) \<Rightarrow> ('s, 'a) action" where
  "json body s = (Inr (body s), s)"

text \<open>
  \<open>str.lower\<close> on the letters A to Z; every other character is left as it is. (Python
  also lowers the cased letters outside ASCII. The strings lowered here are library names
  searched for keywords, day names, and profile and tag names compared with each other.)
\<close>

definition lower_char :: "char \<Rightarrow> char" where
  "lower_char c =
     (case map_of (zip ''ABCDEFGHIJKLMNOPQRSTUVWXYZ'' ''abcdefghijklmnopqrstuvwxyz'') c of
        None \<Rightarrow> c | Some l \<Rightarrow> l)"

definition lower :: "string \<Rightarrow> string" where
  "lower s = map lower_char s"

text \<open>\<open>k in s\<close> on strings: \<open>k\<close> occurs in \<open>s\<close> as a contiguous run.\<close>

fun contains :: "string \<Rightarrow> string \<Rightarrow> bool" where
  "contains k [] = (k = [])"
| "contains k (c # cs) = (prefix k (c # cs) \<or> contains k cs)"

section \<open>Library service (JellyfinClient)\<close>

datatype jf_request =
    GetLibraries
  | GetCollections
  | GetCollection string
  | GetCollectionItems string
  | PostCollection string
  | PostCollectionItems string "string set"
  | DeleteCollectionItems string "string set"
  | PostItem string

text \<open>
  \<open>libraries\<close> are the (Name, ItemId) pairs of the virtual folders, \<open>boxsets\<close> the
  (Id, Name) pairs of the collections, \<open>members\<close> the item identifiers inside each
  collection (the client returns them as a list that its only caller turns into a set at
  once, so the set is kept), \<open>new_id\<close> the identifier the server gives a collection it
  creates.
\<close>

record jellyfin_server =
  libraries :: "(string \<times> string) list"
  boxsets :: "(string \<times> string) list"
  members :: "string \<Rightarrow> string set"
  overview :: "string \<Rightarrow> string option"
  sort_name :: "string \<Rightarrow> string option"
  new_id :: "string \<Rightarrow> string"
  jf_fault :: "jf_request \<Rightarrow> fault option"
  jf_log :: "jf_request list"

definition jf_send :: "nat \<Rightarrow> jf_request \<Rightarrow> (jellyfin_server, nat) action" where
  "jf_send ok r s = (response ok (jf_fault s r), s\<lparr>jf_log := jf_log s @ [r]\<rparr>)"

definition get_libraries :: "(jellyfin_server, (string \<times> string) list) action" where
  "get_libraries =
     await (jf_send 200 GetLibraries) (\<lambda>status_code.
     await (raise_for_status status_code) (\<lambda>_.
     json libraries))"

definition get_collections :: "(jellyfin_server, (string \<times> string) list) action" where
  "get_collections =
     await (jf_send 200 GetCollections) (\<lambda>status_code.
     await (raise_for_status status_code) (\<lambda>_.
     json boxsets))"

text \<open>Status 200 gives the record, any other status \<open>None\<close>; nothing is raised on a status.\<close>

definition get_collection :: "string \<Rightarrow> (jellyfin_server, (string \<times> string) option) action" where
  "get_collection collection_id =
     await (jf_send 200 (GetCollection collection_id)) (\<lambda>status_code.
       if status_code = 200 then json (\<lambda>s. find (\<lambda>c. fst c = collection_id) (boxsets s))
       else return None)"

definition get_collection_items :: "string \<Rightarrow> (jellyfin_server, string set) action" where
  "get_collection_items collection_id =
     await (jf_send 200 (GetCollectionItems collection_id)) (\<lambda>status_code.
     await (raise_for_status status_code) (\<lambda>_.
     json (\<lambda>s. members s collection_id)))"

definition create_collection :: "string \<Rightarrow> (jellyfin_server, string) action" where
  "create_collection nm =
     await (jf_send 200 (PostCollection nm)) (\<lambda>status_code.
     await (raise_for_status status_code) (\<lambda>_ s.
       (Inr (new_id s nm), s\<lparr>boxsets := boxsets s @ [(new_id s nm, nm)]\<rparr>)))"

text \<open>Status 204 gives \<open>True\<close>, any other status \<open>False\<close>: no exception for a refused write.\<close>

definition add_to_collection :: "string \<Rightarrow> string set \<Rightarrow> (jellyfin_server, bool) action" where
  "add_to_collection collection_id item_ids =
     (if item_ids = {} then return True
      else await (jf_send 204 (PostCollectionItems collection_id item_ids)) (\<lambda>status_code.
        if status_code = 204
        then (\<lambda>s. (Inr True,
                s\<lparr>members := (members s)(collection_id := members s collection_id \<union> item_ids)\<rparr>))
        else return False))"

definition remove_from_collection :: "string \<Rightarrow> string set \<Rightarrow> (jellyfin_server, bool) action" where
  "remove_from_collection collection_id item_ids =
     (if item_ids = {} then return True
      else await (jf_send 204 (DeleteCollectionItems collection_id item_ids)) (\<lambda>status_code.
        if status_code = 204
        then (\<lambda>s. (Inr True,
                s\<lparr>members := (members s)(collection_id := members s collection_id - item_ids)\<rparr>))
        else return False))"

definition post_item :: "string \<Rightarrow> string option \<Rightarrow> string option \<Rightarrow> (jellyfin_server, bool) action" where
  "post_item collection_id ov sn =
     await (jf_send 204 (PostItem collection_id)) (\<lambda>status_code.
       if status_code = 204
       then (\<lambda>s. (Inr True,
               s\<lparr>overview := (if truthy_seq ov then (overview s)(collection_id := ov)
                              else overview s),
                 sort_name := (if truthy_seq sn then (sort_name s)(collection_id := sn)
                               else sort_name s)\<rparr>))
       else return False)"

definition update_collection_metadata ::
    "string \<Rightarrow> string option \<Rightarrow> string option \<Rightarrow> (jellyfin_server, bool) action" where
  "update_collection_metadata collection_id ov sn =
     await (get_collection collection_id) (\<lambda>collection.
       if collection = None then return False
       else post_item collection_id ov sn)"

section \<open>Acquisition managers (RadarrClient, SonarrClient)\<close>

datatype arr_request =
    GetTitle int
  | LookupTitle int
  | GetQualityProfiles
  | GetRootFolders
  | GetTags
  | PostTag string
  | PostTitle int "int list"

text \<open>
  One record for either manager: the two clients differ in their endpoints and in the
  catalog identifier they are asked with (TMDb for movies, TVDB for series). \<open>titles\<close> are
  the identifiers already registered, \<open>catalog\<close> the ones a lookup finds,
  \<open>quality_profiles\<close> and \<open>tags\<close> (name, id) pairs, \<open>new_tag_id\<close> the id the server gives
  a tag it creates. The last five fields are the client's own: its three defaults and its
  two cached ids.
\<close>

record arr =
  titles :: "int list"
  catalog :: "int set"
  quality_profiles :: "(string \<times> int) list"
  root_folders :: "string list"
  tags :: "(string \<times> int) list"
  new_tag_id :: "string \<Rightarrow> int"
  arr_fault :: "arr_request \<Rightarrow> fault option"
  arr_log :: "arr_request list"
  root_folder :: string
  quality_profile :: string
  default_tag :: string
  cached_quality_profile_id :: "int option"
  cached_tag_id :: "int option"

definition arr_send :: "nat \<Rightarrow> arr_request \<Rightarrow> (arr, nat) action" where
  "arr_send ok r s = (response ok (arr_fault s r), s\<lparr>arr_log := arr_log s @ [r]\<rparr>)"

definition get_quality_profiles :: "(arr, (string \<times> int) list) action" where
  "get_quality_profiles =
     await (arr_send 200 GetQualityProfiles) (\<lambda>status_code.
     await (raise_for_status status_code) (\<lambda>_.
     json quality_profiles))"

definition get_quality_profile_id :: "string \<Rightarrow> (arr, int option) action" where
  "get_quality_profile_id nm s =
     (if truthy (cached_quality_profile_id s) then (Inr (cached_quality_profile_id s), s)
      else await get_quality_profiles (\<lambda>profiles s'.
        case find (\<lambda>profile. lower (fst profile) = lower nm) profiles of
          Some profile \<Rightarrow>
            (Inr (Some (snd profile)), s'\<lparr>cached_quality_profile_id := Some (snd profile)\<rparr>)
        | None \<Rightarrow> (Inr None, s')) s)"

definition get_root_folders :: "(arr, string list) action" where
  "get_root_folders =
     await (arr_send 200 GetRootFolders) (\<lambda>status_code.
     await (raise_for_status status_code) (\<lambda>_.
     json root_folders))"

definition get_root_folder_path :: "string \<Rightarrow> (arr, string option) action" where
  "get_root_folder_path path =
     await get_root_folders (\<lambda>folders.
       case find (\<lambda>folder. folder = path \<or> prefix folder path) folders of
         Some folder \<Rightarrow> return (Some folder)
       | None \<Rightarrow>
           (case folders of
              [] \<Rightarrow> return None
            | folder # _ \<Rightarrow> return (Some folder)))"

definition get_tags :: "(arr, (string \<times> int) list) action" where
  "get_tags =
     await (arr_send 200 GetTags) (\<lambda>status_code.
     await (raise_for_status status_code) (\<lambda>_.
     json tags))"

text \<open>The POST that creates a tag, with the assignment to the cached id that follows it.\<close>

definition post_tag :: "string \<Rightarrow> (arr, int) action" where
  "post_tag nm =
     await (arr_send 201 (PostTag nm)) (\<lambda>status_code.
     await (raise_for_status status_code) (\<lambda>_ s.
       (Inr (new_tag_id s nm),
        s\<lparr>tags := tags s @ [(nm, new_tag_id s nm)], cached_tag_id := Some (new_tag_id s nm)\<rparr>)))"

definition get_or_create_tag :: "string \<Rightarrow> (arr, int) action" where
  "get_or_create_tag nm s =
     (case (if truthy (cached_tag_id s) then cached_tag_id s else None) of
        Some tag_id \<Rightarrow> (Inr tag_id, s)
      | None \<Rightarrow>
          await get_tags (\<lambda>all_tags s'.
            case find (\<lambda>tag. lower (fst tag) = lower nm) all_tags of
              Some tag \<Rightarrow> (Inr (snd tag), s'\<lparr>cached_tag_id := Some (snd tag)\<rparr>)
            | None \<Rightarrow> post_tag nm s') s)"

text \<open>\<open>for tag_name in tags or [self.default_tag]\<close>, collecting \<open>tag_ids\<close>.\<close>

fun tag_ids_loop :: "string list \<Rightarrow> int list \<Rightarrow> (arr, int list) action" where
  "tag_ids_loop [] tag_ids s = (Inr tag_ids, s)"
| "tag_ids_loop (tag_name # rest) tag_ids s =
     (case get_or_create_tag tag_name s of
        (Inl e, s') \<Rightarrow> (Inl e, s')
      | (Inr tag_id, s') \<Rightarrow> tag_ids_loop rest (tag_ids @ [tag_id]) s')"

text \<open>The final POST: status 201 gives the added record, any other status \<open>None\<close>.\<close>

definition post_title :: "int \<Rightarrow> int list \<Rightarrow> (arr, int option) action" where
  "post_title i tag_ids =
     await (arr_send 201 (PostTitle i tag_ids)) (\<lambda>status_code.
       if status_code = 201
       then (\<lambda>s. (Inr (Some i), s\<lparr>titles := titles s @ [i]\<rparr>))
       else return None)"

text \<open>
  What \<open>add_movie\<close> and \<open>add_series\<close> do once the title is known not to exist and the
  lookup has found it: quality profile, root folder, tags, POST. Each \<open>return None\<close> of the
  source is a \<open>return None\<close> here.
\<close>

definition register_title :: "int \<Rightarrow> string list option \<Rightarrow> (arr, int option) action" where
  "register_title i tgs s =
     await (get_quality_profile_id (quality_profile s)) (\<lambda>profile_id.
       if \<not> truthy profile_id then return None
       else await (get_root_folder_path (root_folder s)) (\<lambda>folder.
         if \<not> truthy_seq folder then return None
         else await (tag_ids_loop (py_or_seq tgs [default_tag s]) [])
                (\<lambda>tag_ids. post_title i tag_ids))) s"

subsection \<open>Radarr\<close>

definition get_movie_by_tmdb_id :: "int \<Rightarrow> (arr, int option) action" where
  "get_movie_by_tmdb_id i =
     await (arr_send 200 (GetTitle i)) (\<lambda>status_code.
     await (raise_for_status status_code) (\<lambda>_.
     json (\<lambda>s. if i \<in> set (titles s) then Some i else None)))"

definition movie_exists :: "int \<Rightarrow> (arr, bool) action" where
  "movie_exists i = await (get_movie_by_tmdb_id i) (\<lambda>movie. return (movie \<noteq> None))"

definition lookup_movie :: "int \<Rightarrow> (arr, int option) action" where
  "lookup_movie i =
     await (arr_send 200 (LookupTitle i)) (\<lambda>status_code.
       if status_code = 404 then return None
       else await (raise_for_status status_code) (\<lambda>_.
              json (\<lambda>s. if i \<in> catalog s then Some i else None)))"

definition add_movie :: "int \<Rightarrow> string list option \<Rightarrow> (arr, int option) action" where
  "add_movie i tgs =
     await (movie_exists i) (\<lambda>exists.
       if exists then get_movie_by_tmdb_id i
       else await (lookup_movie i) (\<lambda>movie_data.
         if movie_data = None then return None
         else register_title i tgs))"

subsection \<open>Sonarr\<close>

definition get_series_by_tvdb_id :: "int \<Rightarrow> (arr, int option) action" where
  "get_series_by_tvdb_id i =
     await (arr_send 200 (GetTitle i)) (\<lambda>status_code.
     await (raise_for_status status_code) (\<lambda>_.
     json (\<lambda>s. if i \<in> set (titles s) then Some i else None)))"

definition series_exists :: "int \<Rightarrow> (arr, bool) action" where
  "series_exists i = await (get_series_by_tvdb_id i) (\<lambda>series. return (series \<noteq> None))"

definition lookup_series :: "int \<Rightarrow> (arr, int option) action" where
  "lookup_series i =
     await (arr_send 200 (LookupTitle i)) (\<lambda>status_code.
       if status_code = 404 then return None
       else await (raise_for_status status_code) (\<lambda>_.
              json (\<lambda>s. if i \<in> catalog s then Some i else None)))"

definition add_series :: "int \<Rightarrow> string list option \<Rightarrow> (arr, int option) action" where
  "add_series i tgs =
     await (series_exists i) (\<lambda>exists.
       if exists then get_series_by_tvdb_id i
       else await (lookup_series i) (\<lambda>series_data.
         if series_data = None then return None
         else register_title i tgs))"

section \<open>The world of one run\<close>

text \<open>
  The catalog providers only read: each is a function from the call to its answer. The
  TMDb client and the library matcher are not among the sources, so the calls the builder
  makes on them are all that is fixed here; \<open>trakt\<close> is \<open>None\<close> when no Trakt client is
  configured, and so are \<open>radarr\<close> and \<open>sonarr\<close>.
\<close>

datatype tmdb_call =
    TmdbTrendingMovies string int
  | TmdbTrendingSeries string int
  | TmdbPopularMovies int
  | TmdbPopularSeries int
  | TmdbDiscoverMovies "pyval option list" pyval
  | TmdbDiscoverSeries "pyval option list" pyval

datatype trakt_call =
    TraktTrendingMovies pyval
  | TraktTrendingSeries pyval
  | TraktPopularMovies pyval
  | TraktPopularSeries pyval
  | TraktWatchedMovies pyval pyval
  | TraktWatchedSeries pyval pyval

datatype notification =
    RunStart "string list" bool
  | RunEnd nat nat nat nat
  | CollectionChanges string string "string list" "string list"
  | CollectionError string exn

datatype weekday = Monday | Tuesday | Wednesday | Thursday | Friday | Saturday | Sunday

text \<open>
  What the schedule gate reads of \<open>datetime.now()\<close>: the day of the month and the weekday
  (\<open>strftime("%A")\<close> gives its English name).
\<close>

record datetime =
  dt_day :: int
  dt_weekday :: weekday

record world =
  tmdb :: "tmdb_call \<Rightarrow> exn + MediaItem list"
  trakt :: "(trakt_call \<Rightarrow> exn + MediaItem list) option"
  matcher :: "MediaItem \<Rightarrow> string \<Rightarrow> exn + LibraryItem option"
  jellyfin :: jellyfin_server
  radarr :: "arr option"
  sonarr :: "arr option"
  discord :: "notification list"
  now :: datetime

definition with_jellyfin :: "(jellyfin_server, 'a) action \<Rightarrow> (world, 'a) action" where
  "with_jellyfin m w = (case m (jellyfin w) of (r, s') \<Rightarrow> (r, w\<lparr>jellyfin := s'\<rparr>))"

text \<open>
  The notifier never raises (\<open>_send\<close> catches every exception), so a notification is an
  entry in the log of the calls made on it.
\<close>

definition notify :: "notification \<Rightarrow> world \<Rightarrow> world" where
  "notify n w = w\<lparr>discord := discord w @ [n]\<rparr>"

section \<open>Provider aggregator\<close>

definition when_truthy :: "'a::zero option \<Rightarrow> ('a \<Rightarrow> 'b) \<Rightarrow> 'b option" where
  "when_truthy v f = (case v of None \<Rightarrow> None | Some n \<Rightarrow> if n \<noteq> 0 then Some (f n) else None)"

definition when_truthy_seq :: "'a list option \<Rightarrow> ('a list \<Rightarrow> 'b) \<Rightarrow> 'b option" where
  "when_truthy_seq v f = (case v of None \<Rightarrow> None | Some l \<Rightarrow> if l \<noteq> [] then Some (f l) else None)"

definition fetch_tmdb_discover :: "world \<Rightarrow> pydict \<Rightarrow> MediaType \<Rightarrow> exn + MediaItem list" where
  "fetch_tmdb_discover w discover media_type =
     (let lim = dict_get discover ''limit'' (PyInt 20)
      in if media_type = MOVIE
         then tmdb w (TmdbDiscoverMovies
                [Some (dict_get discover ''sort_by'' (PyStr ''popularity.desc'')),
                 map_of discover ''with_genres'', map_of discover ''without_genres'',
                 map_of discover ''vote_average.gte'', map_of discover ''vote_average.lte'',
                 map_of discover ''vote_count.gte'', map_of discover ''vote_count.lte'',
                 map_of discover ''primary_release_date.gte'',
                 map_of discover ''primary_release_date.lte'',
                 map_of discover ''with_watch_providers'', map_of discover ''watch_region'',
                 map_of discover ''with_original_language'',
                 map_of discover ''with_release_type'', map_of discover ''region''] lim)
         else tmdb w (TmdbDiscoverSeries
                [Some (dict_get discover ''sort_by'' (PyStr ''popularity.desc'')),
                 map_of discover ''with_genres'', map_of discover ''without_genres'',
                 map_of discover ''vote_average.gte'',
                 map_of discover ''vote_count.gte'', map_of discover ''vote_count.lte'',
                 map_of discover ''first_air_date.gte'', map_of discover ''first_air_date.lte'',
                 map_of discover ''with_watch_providers'', map_of discover ''watch_region'',
                 map_of discover ''with_status''] lim))"

definition fetch_trakt_chart :: "world \<Rightarrow> pydict \<Rightarrow> MediaType \<Rightarrow> exn + MediaItem list" where
  "fetch_trakt_chart w chart_config media_type =
     (case trakt w of
        None \<Rightarrow> Inr []
      | Some t \<Rightarrow>
          (let chart = dict_get chart_config ''chart'' (PyStr ''watched'');
               period = dict_get chart_config ''time_period'' (PyStr ''weekly'');
               lim = dict_get chart_config ''limit'' (PyInt 20)
           in if chart = PyStr ''watched''
              then (if media_type = MOVIE then t (TraktWatchedMovies period lim)
                    else t (TraktWatchedSeries period lim))
              else if chart = PyStr ''trending''
              then (if media_type = MOVIE then t (TraktTrendingMovies lim)
                    else t (TraktTrendingSeries lim))
              else if chart = PyStr ''popular''
              then (if media_type = MOVIE then t (TraktPopularMovies lim)
                    else t (TraktPopularSeries lim))
              else Inr []))"

text \<open>
  \<open>items.extend(await ...)\<close>, source after source: a step is \<open>None\<close> when its \<open>if\<close> is not
  taken, and the first fetch that raises ends the aggregation.
\<close>

fun extend_all :: "MediaItem list \<Rightarrow> (exn + MediaItem list) option list \<Rightarrow> exn + MediaItem list" where
  "extend_all acc [] = Inr acc"
| "extend_all acc (None # steps) = extend_all acc steps"
| "extend_all acc (Some (Inl e) # steps) = Inl e"
| "extend_all acc (Some (Inr fetched) # steps) = extend_all (acc @ fetched) steps"

definition fetch_items :: "world \<Rightarrow> CollectionConfig \<Rightarrow> MediaType \<Rightarrow> exn + MediaItem list" where
  "fetch_items w cfg media_type =
     (case extend_all []
        [when_truthy (tmdb_trending_weekly cfg) (\<lambda>n.
           if media_type = MOVIE then tmdb w (TmdbTrendingMovies ''week'' n)
           else tmdb w (TmdbTrendingSeries ''week'' n)),
         when_truthy (tmdb_trending_daily cfg) (\<lambda>n.
           if media_type = MOVIE then tmdb w (TmdbTrendingMovies ''day'' n)
           else tmdb w (TmdbTrendingSeries ''day'' n)),
         when_truthy (tmdb_popular cfg) (\<lambda>n.
           if media_type = MOVIE then tmdb w (TmdbPopularMovies n)
           else tmdb w (TmdbPopularSeries n)),
         when_truthy_seq (tmdb_discover cfg) (\<lambda>discover.
           fetch_tmdb_discover w discover media_type),
         (case trakt w of None \<Rightarrow> None | Some t \<Rightarrow>
            when_truthy (trakt_trending cfg) (\<lambda>n.
              if media_type = MOVIE then t (TraktTrendingMovies (PyInt n))
              else t (TraktTrendingSeries (PyInt n)))),
         (case trakt w of None \<Rightarrow> None | Some t \<Rightarrow>
            when_truthy (trakt_popular cfg) (\<lambda>n.
              if media_type = MOVIE then t (TraktPopularMovies (PyInt n))
              else t (TraktPopularSeries (PyInt n)))),
         (case trakt w of None \<Rightarrow> None | Some t \<Rightarrow>
            when_truthy_seq (trakt_chart cfg) (\<lambda>chart_config.
              fetch_trakt_chart w chart_config media_type))]
      of Inl e \<Rightarrow> Inl e
       | Inr fetched \<Rightarrow> Inr (deduplicate fetched))"

section \<open>Building a collection\<close>

definition collection_item :: "MediaItem \<Rightarrow> LibraryItem option \<Rightarrow> CollectionItem" where
  "collection_item item lib_item =
     \<lparr>ci_title = title item, ci_year = year item, ci_tmdb_id = tmdb_id item,
      ci_imdb_id = imdb_id item, ci_tvdb_id = tvdb_id item,
      jellyfin_id = map_option lib_jellyfin_id lib_item,
      matched = (lib_item \<noteq> None), in_library = (lib_item \<noteq> None)\<rparr>"

fun match_loop :: "world \<Rightarrow> string \<Rightarrow> MediaItem list \<Rightarrow> CollectionItem list \<Rightarrow> exn + CollectionItem list" where
  "match_loop w library_id [] collection_items = Inr collection_items"
| "match_loop w library_id (item # rest) collection_items =
     (case matcher w item library_id of
        Inl e \<Rightarrow> Inl e
      | Inr lib_item \<Rightarrow>
          match_loop w library_id rest (collection_items @ [collection_item item lib_item]))"

definition build_collection ::
    "world \<Rightarrow> CollectionConfig \<Rightarrow> string \<Rightarrow> string \<Rightarrow> MediaType \<Rightarrow> exn + Collection" where
  "build_collection w cfg lib_name library_id media_type =
     (case fetch_items w cfg media_type of
        Inl e \<Rightarrow> Inl e
      | Inr fetched \<Rightarrow>
          (case match_loop w library_id (apply_filters fetched cfg) [] of
             Inl e \<Rightarrow> Inl e
           | Inr collection_items \<Rightarrow>
               Inr \<lparr>config = cfg, library_name = lib_name, items = collection_items\<rparr>))"

section \<open>Acquisition dispatcher\<close>

definition with_sonarr :: "(exn + 'a) \<times> arr \<Rightarrow> (world, unit) action" where
  "with_sonarr result w =
     (case result of (Inl e, s') \<Rightarrow> (Inl e, w\<lparr>sonarr := Some s'\<rparr>)
                   | (Inr _, s') \<Rightarrow> (Inr (), w\<lparr>sonarr := Some s'\<rparr>))"

definition with_radarr :: "(exn + 'a) \<times> arr \<Rightarrow> (world, unit) action" where
  "with_radarr result w =
     (case result of (Inl e, s') \<Rightarrow> (Inl e, w\<lparr>radarr := Some s'\<rparr>)
                   | (Inr _, s') \<Rightarrow> (Inr (), w\<lparr>radarr := Some s'\<rparr>))"

text \<open>
  The body of the loop over \<open>missing\<close>: \<open>is_series and self.sonarr and item.tvdb_id\<close>, else
  \<open>not is_series and self.radarr and item.tmdb_id\<close>, else nothing.
\<close>

definition request_item :: "bool \<Rightarrow> string list option \<Rightarrow> CollectionItem \<Rightarrow> (world, unit) action" where
  "request_item is_series tgs item w =
     (case (if is_series then sonarr w else None,
            if truthy (ci_tvdb_id item) then ci_tvdb_id item else None) of
        (Some s, Some i) \<Rightarrow> with_sonarr (add_series i tgs s) w
      | _ \<Rightarrow>
          (case (if \<not> is_series then radarr w else None,
                 if truthy (ci_tmdb_id item) then ci_tmdb_id item else None) of
             (Some r, Some i) \<Rightarrow> with_radarr (add_movie i tgs r) w
           | _ \<Rightarrow> (Inr (), w)))"

fun request_loop :: "bool \<Rightarrow> string list option \<Rightarrow> CollectionItem list \<Rightarrow> (world, unit) action" where
  "request_loop is_series tgs [] w = (Inr (), w)"
| "request_loop is_series tgs (item # rest) w =
     (case request_item is_series tgs item w of
        (Inl e, w') \<Rightarrow> (Inl e, w')
      | (Inr _, w') \<Rightarrow> request_loop is_series tgs rest w')"

definition add_missing_to_arr :: "Collection \<Rightarrow> (world, unit) action" where
  "add_missing_to_arr collection w =
     (let missing = filter (\<lambda>item. \<not> in_library item) (items collection)
      in if missing = [] then (Inr (), w)
         else
           let is_series = (case items collection of [] \<Rightarrow> False
                            | first # _ \<Rightarrow> ci_tvdb_id first \<noteq> None);
               tag = (if truthy_seq (item_radarr_tag (config collection))
                      then item_radarr_tag (config collection)
                      else item_sonarr_tag (config collection))
           in request_loop is_series (when_truthy_seq tag (\<lambda>t. [t])) missing w)"

section \<open>Reconciliation engine\<close>

text \<open>\<open>{item.jellyfin_id for item in collection.items if item.jellyfin_id}\<close>\<close>

definition target_ids :: "Collection \<Rightarrow> string set" where
  "target_ids collection =
     set (List.map_filter (\<lambda>item. when_truthy_seq (jellyfin_id item) (\<lambda>i. i)) (items collection))"

definition get_or_create :: "string \<Rightarrow> (jellyfin_server, string) action" where
  "get_or_create nm =
     await get_collections (\<lambda>jellyfin_collections.
       case find (\<lambda>c. snd c = nm) jellyfin_collections of
         Some existing \<Rightarrow> return (fst existing)
       | None \<Rightarrow> create_collection nm)"

definition sync_collection :: "bool \<Rightarrow> Collection \<Rightarrow> bool \<Rightarrow> (world, nat \<times> nat) action" where
  "sync_collection dry_run collection add_missing =
     (if dry_run then return (0, 0)
      else
        await (with_jellyfin (get_or_create (name (config collection)))) (\<lambda>collection_id.
        await (with_jellyfin (get_collection_items collection_id)) (\<lambda>current_ids.
          let to_add = target_ids collection - current_ids;
              to_remove = current_ids - target_ids collection
          in
          await (if to_add \<noteq> {} then with_jellyfin (add_to_collection collection_id to_add)
                 else return True) (\<lambda>_.
          await (if to_remove \<noteq> {}
                 then with_jellyfin (remove_from_collection collection_id to_remove)
                 else return True) (\<lambda>_.
          await (with_jellyfin (update_collection_metadata collection_id
                   (summary (config collection)) (sort_title (config collection)))) (\<lambda>_.
          await (if add_missing then add_missing_to_arr collection else return ()) (\<lambda>_.
          return (card to_add, card to_remove))))))))"

section \<open>Schedule gate\<close>

fun strftime_A :: "weekday \<Rightarrow> string" where
  "strftime_A Monday = ''Monday''"
| "strftime_A Tuesday = ''Tuesday''"
| "strftime_A Wednesday = ''Wednesday''"
| "strftime_A Thursday = ''Thursday''"
| "strftime_A Friday = ''Friday''"
| "strftime_A Saturday = ''Saturday''"
| "strftime_A Sunday = ''Sunday''"

definition should_run_today :: "CollectionSchedule \<Rightarrow> datetime \<Rightarrow> bool" where
  "should_run_today sched today =
     (if schedule_type sched = DAILY then True
      else if schedule_type sched = NEVER then False
      else if schedule_type sched = WEEKLY
      then lower (strftime_A (dt_weekday today)) =
           lower (py_or_seq (day_of_week sched) ''sunday'')
      else if schedule_type sched = MONTHLY
      then dt_day today = py_or (day_of_month sched) 1
      else True)"

section \<open>Run orchestrator\<close>

record stats =
  collections_updated :: nat
  items_added :: nat
  items_removed :: nat
  errors :: nat

definition infer_media_type :: "string \<Rightarrow> MediaType" where
  "infer_media_type lib_name =
     (let name_lower = lower lib_name
      in if list_ex (\<lambda>keyword. contains keyword name_lower)
              [''film'', ''movie'', ''cin'' @ [CHR 0xC3, CHR 0xA9] @ ''ma'']
         then MOVIE
         else if list_ex (\<lambda>keyword. contains keyword name_lower)
              [''s'' @ [CHR 0xC3, CHR 0xA9] @ ''rie'', ''series'', ''tv'', ''show'', ''cartoon'']
         then SERIES
         else MOVIE)"

text \<open>The two awaited calls of the \<open>try\<close> block: build, then sync.\<close>

definition build_and_sync ::
    "bool \<Rightarrow> CollectionConfig \<Rightarrow> string \<Rightarrow> string \<Rightarrow> MediaType \<Rightarrow> (world, Collection \<times> nat \<times> nat) action" where
  "build_and_sync dry_run cfg lib_name library_id media_type w =
     (case build_collection w cfg lib_name library_id media_type of
        Inl e \<Rightarrow> (Inl e, w)
      | Inr collection \<Rightarrow>
          (case sync_collection dry_run collection True w of
             (Inl e, w') \<Rightarrow> (Inl e, w')
           | (Inr (added, removed), w') \<Rightarrow> (Inr (collection, added, removed), w')))"

text \<open>The \<open>try\<close> statement of \<open>Runner.run\<close>, with its \<open>except Exception\<close> handler.\<close>

definition try_collection ::
    "bool \<Rightarrow> CollectionConfig \<Rightarrow> string \<Rightarrow> string \<Rightarrow> MediaType \<Rightarrow> stats \<times> world \<Rightarrow> stats \<times> world" where
  "try_collection dry_run cfg lib_name library_id media_type sw =
     (case build_and_sync dry_run cfg lib_name library_id media_type (snd sw) of
        (Inr (collection, added, removed), w') \<Rightarrow>
          ((fst sw)\<lparr>collections_updated := collections_updated (fst sw) + 1,
                    items_added := items_added (fst sw) + added,
                    items_removed := items_removed (fst sw) + removed\<rparr>,
           if added > 0 \<or> removed > 0
           then notify (CollectionChanges (name cfg) lib_name
                  (take added (map ci_title (filter matched (items collection)))) []) w'
           else w')
      | (Inl e, w') \<Rightarrow>
          ((fst sw)\<lparr>errors := errors (fst sw) + 1\<rparr>, notify (CollectionError (name cfg) e) w'))"

text \<open>\<open>for config in collection_configs\<close>, with its two \<open>continue\<close> statements.\<close>

fun run_configs ::
    "bool \<Rightarrow> string list option \<Rightarrow> bool \<Rightarrow> string \<Rightarrow> string \<Rightarrow> MediaType \<Rightarrow>
     CollectionConfig list \<Rightarrow> stats \<times> world \<Rightarrow> stats \<times> world" where
  "run_configs dry_run cols scheduled lib_name library_id media_type [] sw = sw"
| "run_configs dry_run cols scheduled lib_name library_id media_type (cfg # rest) sw =
     (if truthy_seq cols \<and> \<not> opt_in (Some (name cfg)) cols
      then run_configs dry_run cols scheduled lib_name library_id media_type rest sw
      else if scheduled \<and> \<not> should_run_today (schedule cfg) (now (snd sw))
      then run_configs dry_run cols scheduled lib_name library_id media_type rest sw
      else run_configs dry_run cols scheduled lib_name library_id media_type rest
             (try_collection dry_run cfg lib_name library_id media_type sw))"

text \<open>\<open>for library_name, collection_configs in all_collections.items()\<close>\<close>

fun run_libraries ::
    "bool \<Rightarrow> string list option \<Rightarrow> bool \<Rightarrow> (string \<Rightarrow> string option) \<Rightarrow>
     (string \<times> CollectionConfig list) list \<Rightarrow> stats \<times> world \<Rightarrow> stats \<times> world" where
  "run_libraries dry_run cols scheduled library_id_map [] sw = sw"
| "run_libraries dry_run cols scheduled library_id_map ((lib_name, collection_configs) # rest) sw =
     (case (if truthy_seq (library_id_map lib_name) then library_id_map lib_name else None) of
        None \<Rightarrow>
          run_libraries dry_run cols scheduled library_id_map rest
            ((fst sw)\<lparr>errors := errors (fst sw) + 1\<rparr>, snd sw)
      | Some library_id \<Rightarrow>
          run_libraries dry_run cols scheduled library_id_map rest
            (run_configs dry_run cols scheduled lib_name library_id (infer_media_type lib_name)
               collection_configs sw))"

text \<open>
  \<open>Runner.run\<close>. \<open>parsed\<close> is what the parser returns (library name to collection
  definitions, in order); the duration is left out of the final notification.
\<close>

definition run ::
    "bool \<Rightarrow> (string \<times> CollectionConfig list) list \<Rightarrow> string list option \<Rightarrow>
     string list option \<Rightarrow> bool \<Rightarrow> (world, stats) action" where
  "run dry_run parsed libs cols scheduled w =
     (let all_collections =
            (if truthy_seq libs then filter (\<lambda>kv. opt_in (Some (fst kv)) libs) parsed
             else parsed);
          w1 = notify (RunStart (map fst all_collections) scheduled) w
      in case with_jellyfin get_libraries w1 of
           (Inl e, w2) \<Rightarrow> (Inl e, w2)
         | (Inr jellyfin_libraries, w2) \<Rightarrow>
             (case run_libraries dry_run cols scheduled (map_of (rev jellyfin_libraries))
                     all_collections
                     (\<lparr>collections_updated = 0, items_added = 0, items_removed = 0, errors = 0\<rparr>,
                      w2) of
                (st, w3) \<Rightarrow>
                  (Inr st,
                   notify (RunEnd (collections_updated st) (items_added st) (items_removed st)
                             (errors st)) w3)))"

section \<open>Notions used in the statements\<close>

text \<open>The non-zero identifiers of a list of items: what \<open>seen_ids\<close> holds after the loop has run over it.\<close>

definition keys :: "MediaItem list \<Rightarrow> int set" where
  "keys xs = {i. i \<noteq> 0 \<and> Some i \<in> set (map tmdb_id xs)}"

text \<open>
  The library collection \<open>sync_collection\<close> works on: the first one the server lists under
  the name, or the one the server creates.
\<close>

definition resolved_id :: "string \<Rightarrow> jellyfin_server \<Rightarrow> string" where
  "resolved_id nm s = (case find (\<lambda>c. snd c = nm) (boxsets s) of
                         Some existing \<Rightarrow> fst existing
                       | None \<Rightarrow> new_id s nm)"

text \<open>
  A collection definition passes the filter on collection names: no names were given, or
  its name is among them.
\<close>

definition eligible :: "string list option \<Rightarrow> CollectionConfig \<Rightarrow> bool" where
  "eligible cols cfg \<longleftrightarrow> (case cols of None \<Rightarrow> True | Some l \<Rightarrow> l = [] \<or> name cfg \<in> set l)"

text \<open>An action on the world that leaves the clock alone.\<close>

definition keeps_now :: "(world, 'a) action \<Rightarrow> bool" where
  "keeps_now m \<longleftrightarrow> (\<forall>w. now (snd (m w)) = now w)"

text \<open>
  The titles a manager was asked about: the identifiers of the existence checks among the
  requests of a log, in order. Every request for a title starts with that check.
\<close>

definition title_of :: "arr_request \<Rightarrow> int option" where
  "title_of q = (case q of GetTitle i \<Rightarrow> Some i | _ \<Rightarrow> None)"

definition requested :: "arr_request list \<Rightarrow> int list" where
  "requested l = List.map_filter title_of l"

text \<open>
  An action on a manager that asks about no title outside \<open>A\<close>: it appends its requests
  to the log, and the titles asked about among them are in \<open>A\<close>.
\<close>

definition asks :: "int set \<Rightarrow> (arr, 'a) action \<Rightarrow> bool" where
  "asks A m \<longleftrightarrow> (\<forall>s. \<exists>l. arr_log (snd (m s)) = arr_log s @ l \<and> set (requested l) \<subseteq> A)"

text \<open>
  The media kind the dispatcher works with, the manager of a kind, and the identifier an
  item is requested with under a kind.
\<close>

definition series_kind :: "Collection \<Rightarrow> bool" where
  "series_kind c = (case items c of [] \<Rightarrow> False | first # _ \<Rightarrow> ci_tvdb_id first \<noteq> None)"

definition manager :: "bool \<Rightarrow> world \<Rightarrow> arr option" where
  "manager is_series w = (if is_series then sonarr w else radarr w)"

definition catalog_id :: "bool \<Rightarrow> CollectionItem \<Rightarrow> int option" where
  "catalog_id is_series item = (if is_series then ci_tvdb_id item else ci_tmdb_id item)"

section \<open>Sample data\<close>

text \<open>Concrete values on which the properties below are instantiated.\<close>

definition no_item :: MediaItem where
  "no_item = \<lparr>title = ''Unknown'', year = None, tmdb_id = None, imdb_id = None, tvdb_id = None,
     vote_average = None, vote_count = None, genres = [], original_country = None\<rparr>"

definition no_filter :: CollectionFilter where
  "no_filter = \<lparr>year_gte = None, year_lte = None, vote_average_gte = None,
     critic_rating_gte = None, tmdb_vote_count_gte = None, country_not = None,
     origin_country_not = None\<rparr>"

definition no_schedule :: CollectionSchedule where
  "no_schedule = \<lparr>schedule_type = DAILY, day_of_week = None, day_of_month = None\<rparr>"

definition no_config :: CollectionConfig where
  "no_config = \<lparr>name = ''Sample'', summary = None, sort_title = None, tmdb_trending_weekly = None,
     tmdb_trending_daily = None, tmdb_popular = None, tmdb_discover = None, trakt_trending = None,
     trakt_popular = None, trakt_chart = None, filters = no_filter, limit = None,
     schedule = no_schedule, item_radarr_tag = None, item_sonarr_tag = None\<rparr>"

definition matrix_first :: MediaItem where
  "matrix_first = no_item\<lparr>title := ''The Matrix'', year := Some 1999, tmdb_id := Some 603\<rparr>"

definition matrix_second :: MediaItem where
  "matrix_second = no_item\<lparr>title := ''Matrix'', tmdb_id := Some 603, vote_average := Some 8.2\<rparr>"

definition zero_id_item :: MediaItem where
  "zero_id_item = no_item\<lparr>title := ''Zero'', tmdb_id := Some 0\<rparr>"

definition year_zero_item :: MediaItem where
  "year_zero_item = no_item\<lparr>title := ''Year zero'', tmdb_id := Some 11, year := Some 0\<rparr>"

definition item_2019 :: MediaItem where
  "item_2019 = no_item\<lparr>title := ''Old'', tmdb_id := Some 12, year := Some 2019\<rparr>"

definition item_2021 :: MediaItem where
  "item_2021 = no_item\<lparr>title := ''New'', tmdb_id := Some 13, year := Some 2021\<rparr>"

definition unrated_item :: MediaItem where
  "unrated_item = no_item\<lparr>title := ''Unrated'', tmdb_id := Some 14, vote_average := Some 0,
     vote_count := Some 0\<rparr>"

definition old_again :: MediaItem where
  "old_again = item_2019\<lparr>title := ''Old again'', year := Some 2020\<rparr>"

definition provider_outputs :: "MediaItem list" where
  "provider_outputs = [matrix_first, item_2019, matrix_second, zero_id_item, old_again, item_2021]"

definition config_2020 :: CollectionConfig where
  "config_2020 = no_config\<lparr>filters := no_filter\<lparr>year_gte := Some 2020\<rparr>\<rparr>"

definition low_rated_item :: MediaItem where
  "low_rated_item = no_item\<lparr>title := ''Low'', tmdb_id := Some 15, vote_average := Some 5,
     vote_count := Some 2000\<rparr>"

definition well_rated_item :: MediaItem where
  "well_rated_item = no_item\<lparr>title := ''Well'', tmdb_id := Some 16, vote_average := Some 8,
     vote_count := Some 2000\<rparr>"

definition config_rated :: CollectionConfig where
  "config_rated = no_config\<lparr>filters := no_filter\<lparr>vote_average_gte := Some 7,
     tmdb_vote_count_gte := Some 100\<rparr>\<rparr>"

definition config_critic :: CollectionConfig where
  "config_critic = no_config\<lparr>filters := no_filter\<lparr>critic_rating_gte := Some 7\<rparr>\<rparr>"

definition jellyfin0 :: jellyfin_server where
  "jellyfin0 = \<lparr>libraries = [(''Films'', ''lib-1'')], boxsets = [(''col-1'', ''Trending'')],
     members = (\<lambda>_. {})(''col-1'' := {''a'', ''b'', ''c''}), overview = (\<lambda>_. None),
     sort_name = (\<lambda>_. None), new_id = (\<lambda>nm. ''col-'' @ nm), jf_fault = (\<lambda>_. None),
     jf_log = []\<rparr>"

definition arr0 :: arr where
  "arr0 = \<lparr>titles = [], catalog = {603, 604, 1399}, quality_profiles = [(''HD-1080p'', 4)],
     root_folders = [''/media''], tags = [], new_tag_id = (\<lambda>_. 1), arr_fault = (\<lambda>_. None),
     arr_log = [], root_folder = ''/media'', quality_profile = ''hd-1080p'', default_tag = ''jfc'',
     cached_quality_profile_id = None, cached_tag_id = None\<rparr>"

definition world0 :: world where
  "world0 = \<lparr>tmdb = (\<lambda>_. Inr []), trakt = None, matcher = (\<lambda>_ _. Inr None),
     jellyfin = jellyfin0, radarr = Some arr0, sonarr = Some arr0, discord = [],
     now = \<lparr>dt_day = 1, dt_weekday = Sunday\<rparr>\<rparr>"

definition in_library_item :: "string \<Rightarrow> CollectionItem" where
  "in_library_item i = \<lparr>ci_title = i, ci_year = None, ci_tmdb_id = Some 603, ci_imdb_id = None,
     ci_tvdb_id = None, jellyfin_id = Some i, matched = True, in_library = True\<rparr>"

definition trending_bcd :: Collection where
  "trending_bcd = \<lparr>config = no_config\<lparr>name := ''Trending''\<rparr>, library_name = ''Films'',
     items = [in_library_item ''b'', in_library_item ''c'', in_library_item ''d'']\<rparr>"

definition popular_config :: "string \<Rightarrow> CollectionConfig" where
  "popular_config nm = no_config\<lparr>name := nm, tmdb_popular := Some 1\<rparr>"

text \<open>
  A world for scenario E: TMDb answers the popular feed with the Matrix, the matcher finds
  it in the library, and the library service refuses to create the collection named B.
\<close>

definition world_e :: world where
  "world_e = world0\<lparr>
     tmdb := (\<lambda>call. if call = TmdbPopularMovies 1 then Inr [matrix_first] else Inr []),
     matcher := (\<lambda>item library_id.
        Inr (Some \<lparr>lib_jellyfin_id = ''jf-603'', lib_title = ''The Matrix''\<rparr>)),
     jellyfin := jellyfin0\<lparr>jf_fault :=
        (\<lambda>r. if r = PostCollection ''B'' then Some (Status 500) else None)\<rparr>,
     radarr := None, sonarr := None\<rparr>"

text \<open>The same world with a second library, of series.\<close>

definition world_libs :: world where
  "world_libs = world_e\<lparr>jellyfin := (jellyfin world_e)\<lparr>libraries :=
     [(''Films'', ''lib-1''), (''Shows'', ''lib-2'')]\<rparr>\<rparr>"

definition never_config :: CollectionConfig where
  "never_config = (popular_config ''N'')\<lparr>schedule :=
     \<lparr>schedule_type = NEVER, day_of_week = None, day_of_month = None\<rparr>\<rparr>"

definition weekly_saturday :: CollectionSchedule where
  "weekly_saturday = \<lparr>schedule_type = WEEKLY, day_of_week = Some ''Saturday'', day_of_month = None\<rparr>"

definition monthly_31 :: CollectionSchedule where
  "monthly_31 = \<lparr>schedule_type = MONTHLY, day_of_week = None, day_of_month = Some 31\<rparr>"

definition stats0 :: stats where
  "stats0 = \<lparr>collections_updated = 0, items_added = 0, items_removed = 0, errors = 0\<rparr>"

definition missing_item :: "int option \<Rightarrow> int option \<Rightarrow> CollectionItem" where
  "missing_item movie_id series_id = \<lparr>ci_title = ''Wanted'', ci_year = None, ci_tmdb_id = movie_id,
     ci_imdb_id = None, ci_tvdb_id = series_id, jellyfin_id = None, matched = False,
     in_library = False\<rparr>"

definition wanted_item :: MediaItem where
  "wanted_item = no_item\<lparr>title := ''Wanted'', tmdb_id := Some 604\<rparr>"

text \<open>
  A world in which the library service answers every request, the Matrix is in the library
  under the identifier b, a second popular title is not, and Radarr answers the request
  about that title with status 500.
\<close>

definition world_down :: world where
  "world_down = world0\<lparr>
     tmdb := (\<lambda>call. if call = TmdbPopularMovies 1 then Inr [matrix_first, wanted_item]
                      else Inr []),
     matcher := (\<lambda>item library_id.
        if tmdb_id item = Some 603
        then Inr (Some \<lparr>lib_jellyfin_id = ''b'', lib_title = ''The Matrix''\<rparr>)
        else Inr None),
     radarr := Some (arr0\<lparr>arr_fault :=
        (\<lambda>r. if r = GetTitle 604 then Some (Status 500) else None)\<rparr>)\<rparr>"

definition wanted :: Collection where
  "wanted = \<lparr>config = popular_config ''Trending'', library_name = ''Films'',
     items = [collection_item matrix_first (Some \<lparr>lib_jellyfin_id = ''b'', lib_title = ''The Matrix''\<rparr>),
              collection_item wanted_item None]\<rparr>"

definition arr_down :: arr where
  "arr_down = arr0\<lparr>arr_fault := (\<lambda>r. if r = GetTitle 604 then Some (Status 500) else None)\<rparr>"

definition mixed :: Collection where
  "mixed = \<lparr>config = popular_config ''Mixed'', library_name = ''Films'',
     items = [(in_library_item ''s'')\<lparr>ci_tvdb_id := Some 1399\<rparr>, missing_item (Some 604) None]\<rparr>"

text \<open>
  The same world with Radarr answering every read and refusing the final POST for the
  missing title with status 500 (the tag it is posted with has the identifier 1).
\<close>

definition world_refused :: world where
  "world_refused = world_down\<lparr>radarr := Some (arr0\<lparr>arr_fault :=
     (\<lambda>r. if r = PostTitle 604 [1] then Some (Status 500) else None)\<rparr>)\<rparr>"

text \<open>
  A collection of movies with one item in the library and three missing ones: one that
  Radarr finds, one without identifiers, and one that Radarr does not find.
\<close>

definition backlog :: Collection where
  "backlog = \<lparr>config = popular_config ''Backlog'', library_name = ''Films'',
     items = [in_library_item ''b'', missing_item (Some 604) None, missing_item None None,
              missing_item (Some 605) None]\<rparr>"


section \<open>Properties of deduplication\<close>

lemma keys_simps: "keys [] = {}"
  "keys (x # xs) = (case tmdb_id x of None \<Rightarrow> keys xs | Some i \<Rightarrow> if i \<noteq> 0 then insert i (keys xs) else keys xs)"
  by (auto simp: keys_def split: option.splits)

lemma keys_append: "keys (xs @ ys) = keys xs \<union> keys ys"
  by (auto simp: keys_def)

lemma dedup_loop_append:
  "dedup_loop (xs @ ys) seen acc = dedup_loop ys (seen \<union> keys xs) (dedup_loop xs seen acc)"
  by (induction xs arbitrary: seen acc) (auto simp: keys_simps insert_absorb split: option.splits)

lemma dedup_loop_seen: "keys ys \<subseteq> seen \<Longrightarrow> dedup_loop ys seen acc = acc"
  by (induction ys arbitrary: acc) (auto simp: keys_simps split: option.splits if_splits)

lemma deduplicate_snoc:
  "deduplicate (xs @ [x]) =
     deduplicate xs @ (if truthy (tmdb_id x) \<and> tmdb_id x \<notin> set (map tmdb_id xs) then [x] else [])"
  by (auto simp: deduplicate_def dedup_loop_append truthy_def keys_def split: option.splits)

lemma deduplicate_Nil: "deduplicate [] = []"
  by (simp add: deduplicate_def)

lemma deduplicate_subseq: "subseq (deduplicate xs) xs"
proof (induction xs rule: rev_induct)
  case Nil
  then show ?case by (simp add: deduplicate_Nil)
next
  case (snoc x xs)
  have "subseq (deduplicate xs @ [x]) (xs @ [x])"
    using snoc by (simp add: list_emb_append_mono)
  moreover have "subseq (deduplicate xs) (xs @ [x])"
    using snoc by (simp add: list_emb_prefix)
  ultimately show ?case by (simp add: deduplicate_snoc)
qed

lemma deduplicate_set: "set (deduplicate xs) \<subseteq> set xs"
  by (induction xs rule: rev_induct) (simp_all add: deduplicate_Nil deduplicate_snoc subset_iff)

lemma deduplicate_keys:
  "tmdb_id x \<notin> set (map tmdb_id xs) \<Longrightarrow> tmdb_id x \<notin> set (map tmdb_id (deduplicate xs))"
  using deduplicate_set [of xs] by auto

lemma deduplicate_truthy: "y \<in> set (deduplicate xs) \<Longrightarrow> truthy (tmdb_id y)"
  by (induction xs rule: rev_induct)
     (simp_all add: deduplicate_Nil deduplicate_snoc split: if_splits, blast)

lemma deduplicate_distinct: "distinct (map tmdb_id (deduplicate xs))"
proof (induction xs rule: rev_induct)
  case Nil
  then show ?case by (simp add: deduplicate_Nil)
next
  case (snoc x xs)
  show ?case
  proof (cases "truthy (tmdb_id x) \<and> tmdb_id x \<notin> set (map tmdb_id xs)")
    case True
    then have "deduplicate (xs @ [x]) = deduplicate xs @ [x]"
      by (simp add: deduplicate_snoc)
    with snoc True deduplicate_keys [of x xs] show ?thesis by simp
  next
    case False
    then have "deduplicate (xs @ [x]) = deduplicate xs"
      by (simp add: deduplicate_snoc)
    with snoc show ?thesis by simp
  qed
qed

lemma find_append: "find P (xs @ ys) = (case find P xs of None \<Rightarrow> find P ys | Some a \<Rightarrow> Some a)"
  by (induction xs) auto

lemma deduplicate_first:
  "y \<in> set (deduplicate xs) \<Longrightarrow> find (\<lambda>z. tmdb_id z = tmdb_id y) xs = Some y"
proof (induction xs rule: rev_induct)
  case Nil
  then show ?case by (simp add: deduplicate_Nil)
next
  case (snoc x xs)
  show ?case
  proof (cases "y \<in> set (deduplicate xs)")
    case True
    with snoc.IH show ?thesis by (simp add: find_append)
  next
    case False
    with snoc.prems have yx: "y = x" and new: "tmdb_id x \<notin> set (map tmdb_id xs)"
      by (auto simp: deduplicate_snoc split: if_splits)
    from new have "find (\<lambda>z. tmdb_id z = tmdb_id x) xs = None"
      by (simp add: find_None_iff image_iff) metis
    with yx show ?thesis by (simp add: find_append)
  qed
qed

lemma deduplicate_twice: "deduplicate (xs @ xs) = deduplicate xs"
  by (simp add: deduplicate_def dedup_loop_append dedup_loop_seen)

lemma deduplicate_idem: "deduplicate (deduplicate xs) = deduplicate xs"
proof (induction xs rule: rev_induct)
  case Nil
  then show ?case by (simp add: deduplicate_Nil)
next
  case (snoc x xs)
  show ?case
  proof (cases "truthy (tmdb_id x) \<and> tmdb_id x \<notin> set (map tmdb_id xs)")
    case True
    then have "deduplicate (xs @ [x]) = deduplicate xs @ [x]"
      by (simp add: deduplicate_snoc)
    moreover have "deduplicate (deduplicate xs @ [x]) = deduplicate (deduplicate xs) @ [x]"
      using True deduplicate_keys [of x xs] by (simp add: deduplicate_snoc)
    ultimately show ?thesis using snoc by simp
  next
    case False
    then have "deduplicate (xs @ [x]) = deduplicate xs"
      by (simp add: deduplicate_snoc)
    with snoc show ?thesis by simp
  qed
qed

lemma deduplicate_complete:
  "x \<in> set xs \<Longrightarrow> truthy (tmdb_id x) \<Longrightarrow> \<exists>y \<in> set (deduplicate xs). tmdb_id y = tmdb_id x"
proof (induction xs arbitrary: x rule: rev_induct)
  case Nil
  then show ?case by simp
next
  case (snoc a xs)
  show ?case
  proof (cases "x \<in> set xs")
    case True
    with snoc.IH [of x] snoc.prems(2)
    obtain y where "y \<in> set (deduplicate xs)" "tmdb_id y = tmdb_id x" by blast
    then show ?thesis by (auto simp: deduplicate_snoc)
  next
    case False
    with snoc.prems have xa: "x = a" by simp
    show ?thesis
    proof (cases "tmdb_id a \<in> set (map tmdb_id xs)")
      case True
      then obtain z where "z \<in> set xs" "tmdb_id z = tmdb_id a" by auto
      with snoc.IH [of z] snoc.prems(2) xa
      obtain y where "y \<in> set (deduplicate xs)" "tmdb_id y = tmdb_id x"
        by auto
      then show ?thesis by (auto simp: deduplicate_snoc)
    next
      case False
      with snoc.prems(2) xa show ?thesis by (simp add: deduplicate_snoc)
    qed
  qed
qed

lemma filter_distinct_key:
  "distinct (map f ys) \<Longrightarrow> y \<in> set ys \<Longrightarrow> filter (\<lambda>z. f z = f y) ys = [y]"
proof (induction ys)
  case Nil
  then show ?case by simp
next
  case (Cons a ys)
  show ?case
  proof (cases "y = a")
    case True
    from Cons.prems(1) have "\<forall>z \<in> set ys. f z \<noteq> f a" by (auto simp: image_iff)
    then have "filter (\<lambda>z. f z = f a) ys = []" by (simp add: filter_empty_conv)
    with True show ?thesis by simp
  next
    case False
    with Cons have "filter (\<lambda>z. f z = f y) ys = [y]" and "y \<in> set ys" by simp_all
    moreover from Cons.prems(1) \<open>y \<in> set ys\<close> have "f a \<noteq> f y" by (auto simp: image_iff)
    ultimately show ?thesis by simp
  qed
qed


lemma deduplicate_kept_copy:
  assumes "x \<in> set xs" and "truthy (tmdb_id x)"
  shows "map Some (filter (\<lambda>z. tmdb_id z = tmdb_id x) (deduplicate xs))
           = [find (\<lambda>z. tmdb_id z = tmdb_id x) xs]"
proof -
  from deduplicate_complete [OF assms] obtain y
    where y: "y \<in> set (deduplicate xs)" and k: "tmdb_id y = tmdb_id x" by blast
  from filter_distinct_key [OF deduplicate_distinct y]
  have "filter (\<lambda>z. tmdb_id z = tmdb_id x) (deduplicate xs) = [y]" by (simp add: k)
  moreover from deduplicate_first [OF y] have "find (\<lambda>z. tmdb_id z = tmdb_id x) xs = Some y"
    by (simp add: k)
  ultimately show ?thesis by simp
qed

lemma deduplicate_ids:
  "set (map tmdb_id (deduplicate xs)) = set (map tmdb_id xs) - {None, Some 0}"
proof -
  have t: "truthy v \<longleftrightarrow> v \<notin> {None, Some 0}" for v :: "int option"
    by (cases v) (simp_all add: truthy_def)
  show ?thesis
  proof (intro set_eqI iffI)
    fix k assume "k \<in> set (map tmdb_id (deduplicate xs))"
    then obtain y where "y \<in> set (deduplicate xs)" "k = tmdb_id y" by auto
    with deduplicate_truthy [of y xs] deduplicate_set [of xs] t [of k]
    show "k \<in> set (map tmdb_id xs) - {None, Some 0}" by auto
  next
    fix k assume "k \<in> set (map tmdb_id xs) - {None, Some 0}"
    then obtain x where "x \<in> set xs" "k = tmdb_id x" "truthy (tmdb_id x)"
      using t by auto
    with deduplicate_complete [of x xs] obtain y
      where "y \<in> set (deduplicate xs)" "tmdb_id y = k" by auto
    then show "k \<in> set (map tmdb_id (deduplicate xs))" by (auto simp: image_iff)
  qed
qed

text \<open>
  Claim C2, as stated, at a concrete input: an item whose \<open>tmdb_id\<close> is \<open>0\<close> carries
  an identifier that no earlier item has, and the aggregation still drops it, because the
  loop tests the identifier for truth (\<open>if item.tmdb_id and ...\<close>).
\<close>

theorem deduplicate_zero_id_dropped:
  "tmdb_id zero_id_item = Some 0 \<and> tmdb_id zero_id_item \<notin> set (map tmdb_id [])
   \<and> deduplicate ([] @ [zero_id_item]) = []"
  by (simp add: zero_id_item_def no_item_def deduplicate_def)

text \<open>
  Claim C2, amended: aggregation keeps an item iff its \<open>tmdb_id\<close> is present, not zero
  and not carried by an earlier item of the sequence. Said of every sequence \<open>xs\<close> and
  every item \<open>x\<close> that follows it: the result for \<open>xs @ [x]\<close> is the result for \<open>xs\<close>,
  with \<open>x\<close> appended exactly in that case. So the output has pairwise different
  identifiers, keeps the input order, holds no item whose identifier is absent or zero, and
  each item it holds is the first of the input with its identifier (whatever the metadata
  of later ones).
\<close>

theorem deduplicate_first_nonzero_id:
  "deduplicate [] = []
   \<and> deduplicate (xs @ [x]) =
       deduplicate xs @
         (if tmdb_id x \<notin> {None, Some 0} \<and> tmdb_id x \<notin> set (map tmdb_id xs) then [x] else [])
   \<and> distinct (map tmdb_id (deduplicate xs))
   \<and> subseq (deduplicate xs) xs
   \<and> (\<forall>y \<in> set (deduplicate xs).
         tmdb_id y \<notin> {None, Some 0} \<and> find (\<lambda>z. tmdb_id z = tmdb_id y) xs = Some y)"
proof -
  have t: "truthy v \<longleftrightarrow> v \<notin> {None, Some 0}" for v :: "int option"
    by (cases v) (simp_all add: truthy_def)
  have 1: "deduplicate [] = []"
    by (rule deduplicate_Nil)
  have 2: "deduplicate (xs @ [x]) =
       deduplicate xs @
         (if tmdb_id x \<notin> {None, Some 0} \<and> tmdb_id x \<notin> set (map tmdb_id xs) then [x] else [])"
    unfolding t [symmetric] by (rule deduplicate_snoc)
  have 3: "distinct (map tmdb_id (deduplicate xs))"
    by (rule deduplicate_distinct)
  have 4: "subseq (deduplicate xs) xs"
    by (rule deduplicate_subseq)
  have 5: "\<forall>y \<in> set (deduplicate xs).
         tmdb_id y \<notin> {None, Some 0} \<and> find (\<lambda>z. tmdb_id z = tmdb_id y) xs = Some y"
    unfolding t [symmetric] using deduplicate_truthy deduplicate_first by blast
  from 1 2 3 4 5 show ?thesis by (intro conjI)
qed

text \<open>Scenario A with an item without identifier in between: the first \<open>603\<close> is kept.\<close>

theorem deduplicate_first_nonzero_id_witness:
  "deduplicate ([matrix_first, no_item] @ [matrix_second]) = [matrix_first]
   \<and> find (\<lambda>z. tmdb_id z = tmdb_id matrix_first) [matrix_first, no_item] = Some matrix_first"
  using deduplicate_first_nonzero_id [of "[matrix_first, no_item]" matrix_second]
  by (simp add: deduplicate_def matrix_first_def matrix_second_def no_item_def)

text \<open>
  Claim C9: deduplication is idempotent. Aggregating a sequence followed by itself gives
  the same list as aggregating it once (the same items in the same order), and aggregating
  the result again changes nothing. No identifier occurs twice in the result, and its
  identifiers are the identifiers of the sequence that are present and not zero. For every
  item of the sequence with such an identifier, however often the identifier occurs, the
  result holds exactly one item with it: the first item of the sequence that carries it.
\<close>

theorem deduplicate_idempotent:
  "deduplicate (xs @ xs) = deduplicate xs
   \<and> deduplicate (deduplicate xs) = deduplicate xs
   \<and> distinct (map tmdb_id (deduplicate (xs @ xs)))
   \<and> set (map tmdb_id (deduplicate (xs @ xs))) = set (map tmdb_id xs) - {None, Some 0}
   \<and> (\<forall>x \<in> set xs. tmdb_id x \<notin> {None, Some 0} \<longrightarrow>
         map Some (filter (\<lambda>z. tmdb_id z = tmdb_id x) (deduplicate (xs @ xs)))
           = [find (\<lambda>z. tmdb_id z = tmdb_id x) xs])
   \<and> (\<forall>y \<in> set (deduplicate (xs @ xs)). find (\<lambda>z. tmdb_id z = tmdb_id y) xs = Some y)"
proof -
  have t: "truthy v \<longleftrightarrow> v \<notin> {None, Some 0}" for v :: "int option"
    by (cases v) (simp_all add: truthy_def)
  have 5: "\<forall>x \<in> set xs. tmdb_id x \<notin> {None, Some 0} \<longrightarrow>
         map Some (filter (\<lambda>z. tmdb_id z = tmdb_id x) (deduplicate xs))
           = [find (\<lambda>z. tmdb_id z = tmdb_id x) xs]"
    unfolding t [symmetric] using deduplicate_kept_copy by blast
  have 6: "\<forall>y \<in> set (deduplicate xs). find (\<lambda>z. tmdb_id z = tmdb_id y) xs = Some y"
    using deduplicate_first by blast
  from 5 6 deduplicate_ids [of xs] show ?thesis
    by (simp only: deduplicate_twice deduplicate_idem deduplicate_distinct simp_thms)
qed

text \<open>
  Three identifiers, two of them duplicated further down the sequence with other metadata,
  and an item whose identifier is zero.
\<close>

theorem deduplicate_idempotent_witness:
  "deduplicate (provider_outputs @ provider_outputs) = [matrix_first, item_2019, item_2021]
   \<and> deduplicate provider_outputs = [matrix_first, item_2019, item_2021]
   \<and> deduplicate [matrix_first, item_2019, item_2021] = [matrix_first, item_2019, item_2021]
   \<and> old_again \<in> set provider_outputs
   \<and> filter (\<lambda>z. tmdb_id z = tmdb_id old_again) (deduplicate (provider_outputs @ provider_outputs))
       = [item_2019]
   \<and> find (\<lambda>z. tmdb_id z = tmdb_id old_again) provider_outputs = Some item_2019
   \<and> filter (\<lambda>z. tmdb_id z = tmdb_id matrix_second) (deduplicate (provider_outputs @ provider_outputs))
       = [matrix_first]"
  using deduplicate_idempotent [of provider_outputs]
  by (simp add: provider_outputs_def old_again_def deduplicate_def matrix_first_def
      matrix_second_def no_item_def item_2019_def item_2021_def zero_id_item_def)

section \<open>Properties of the filter pipeline\<close>

lemma filter_loop_eq: "filter_loop fs xs acc = acc @ filter (\<lambda>i. \<not> continues fs i) xs"
  by (induction xs arbitrary: acc) auto

lemma apply_filters_eq:
  "apply_filters xs cfg =
     (case limit cfg of None \<Rightarrow> filter (\<lambda>i. \<not> continues (filters cfg) i) xs
      | Some n \<Rightarrow> if n \<noteq> 0 then py_slice_to (filter (\<lambda>i. \<not> continues (filters cfg) i) xs) n
                  else filter (\<lambda>i. \<not> continues (filters cfg) i) xs)"
  by (simp add: apply_filters_def filter_loop_eq Let_def)

lemma py_slice_to_prefix: "prefix (py_slice_to ys n) ys"
  by (simp add: py_slice_to_def take_is_prefix)

lemma apply_filters_prefix:
  "prefix (apply_filters xs cfg) (filter (\<lambda>i. \<not> continues (filters cfg) i) xs)"
  by (simp add: apply_filters_eq py_slice_to_prefix split: option.splits)

lemma apply_filters_subseq: "subseq (apply_filters xs cfg) xs"
proof -
  have "subseq (apply_filters xs cfg) (filter (\<lambda>i. \<not> continues (filters cfg) i) xs)"
    using apply_filters_prefix by (rule prefix_imp_subseq)
  moreover have "subseq (filter (\<lambda>i. \<not> continues (filters cfg) i) xs) xs"
    by simp
  ultimately show ?thesis by (rule subseq_order.trans)
qed

lemma bound_check:
  fixes a b :: "'a::{zero,ord} option"
  shows "(truthy a \<and> truthy b \<and> opt_less b a) \<longleftrightarrow>
         (\<exists>x v. a = Some x \<and> b = Some v \<and> x \<noteq> 0 \<and> v \<noteq> 0 \<and> v < x)"
    and "(truthy a \<and> truthy b \<and> opt_less a b) \<longleftrightarrow>
         (\<exists>x v. a = Some x \<and> b = Some v \<and> x \<noteq> 0 \<and> v \<noteq> 0 \<and> x < v)"
  by (cases a; cases b; simp add: truthy_def opt_less_def)+

lemma country_check:
  "(truthy_seq cs \<and> truthy_seq c \<and> opt_in c cs) \<longleftrightarrow>
   (\<exists>l x. cs = Some l \<and> c = Some x \<and> x \<noteq> [] \<and> x \<in> set l)"
  by (cases cs; cases c; auto simp: truthy_seq_def opt_in_def)

lemma if_True_else: "(if A then True else B) \<longleftrightarrow> A \<or> B"
  by simp

lemma continues_cases:
  "continues fs item \<longleftrightarrow>
     (truthy (year_gte fs) \<and> truthy (year item) \<and> opt_less (year item) (year_gte fs))
   \<or> (truthy (year_lte fs) \<and> truthy (year item) \<and> opt_less (year_lte fs) (year item))
   \<or> (truthy (vote_average_gte fs) \<and> truthy (vote_average item)
        \<and> opt_less (vote_average item) (vote_average_gte fs))
   \<or> (truthy (critic_rating_gte fs) \<and> truthy (vote_average item)
        \<and> opt_less (vote_average item) (critic_rating_gte fs))
   \<or> (truthy (tmdb_vote_count_gte fs) \<and> truthy (vote_count item)
        \<and> opt_less (vote_count item) (tmdb_vote_count_gte fs))
   \<or> (truthy_seq (country_not fs) \<and> truthy_seq (original_country item)
        \<and> opt_in (original_country item) (country_not fs))
   \<or> (truthy_seq (origin_country_not fs) \<and> truthy_seq (original_country item)
        \<and> opt_in (original_country item) (origin_country_not fs))"
  unfolding continues_def if_True_else by (simp only: simp_thms)

lemma continues_iff:
  "continues fs item \<longleftrightarrow>
     (\<exists>b v. year_gte fs = Some b \<and> year item = Some v \<and> b \<noteq> 0 \<and> v \<noteq> 0 \<and> v < b)
   \<or> (\<exists>b v. year_lte fs = Some b \<and> year item = Some v \<and> b \<noteq> 0 \<and> v \<noteq> 0 \<and> b < v)
   \<or> (\<exists>b v. vote_average_gte fs = Some b \<and> vote_average item = Some v \<and> b \<noteq> 0 \<and> v \<noteq> 0 \<and> v < b)
   \<or> (\<exists>b v. critic_rating_gte fs = Some b \<and> vote_average item = Some v \<and> b \<noteq> 0 \<and> v \<noteq> 0 \<and> v < b)
   \<or> (\<exists>b v. tmdb_vote_count_gte fs = Some b \<and> vote_count item = Some v \<and> b \<noteq> 0 \<and> v \<noteq> 0 \<and> v < b)
   \<or> (\<exists>cs c. country_not fs = Some cs \<and> original_country item = Some c \<and> c \<noteq> [] \<and> c \<in> set cs)
   \<or> (\<exists>cs c. origin_country_not fs = Some cs \<and> original_country item = Some c \<and> c \<noteq> [] \<and> c \<in> set cs)"
  unfolding continues_cases bound_check country_check ..

text \<open>
  Claim C4, as stated, at two concrete inputs. An item whose year is \<open>0\<close> has the field
  present and below the bound \<open>year_gte = 2020\<close>, and the pipeline keeps it: each check
  tests the bound and the field for truth first. And with \<open>limit = 0\<close> nothing is cut
  (\<open>if config.limit:\<close>), so the result is longer than the limit.
\<close>

theorem apply_filters_zero_counterexample:
  "year year_zero_item = Some 0 \<and> year_gte (filters config_2020) = Some 2020
   \<and> \<not> (2020 :: int) \<le> 0
   \<and> apply_filters [year_zero_item] config_2020 = [year_zero_item]
   \<and> limit (config_2020\<lparr>limit := Some 0\<rparr>) = Some 0
   \<and> apply_filters [item_2021, no_item] (config_2020\<lparr>limit := Some 0\<rparr>) = [item_2021, no_item]"
  by (simp add: year_zero_item_def item_2021_def config_2020_def no_item_def no_config_def
      no_filter_def apply_filters_def continues_def truthy_def truthy_seq_def opt_less_def
      opt_in_def)

text \<open>
  Claim C4, amended. The output keeps the input order and is a prefix of the filtered
  sequence; the filtered sequence holds exactly the items that no check drops, where a
  check drops an item only when the bound and the item's field are both present and not
  zero (for a country: not empty) and the field lies strictly outside the bound (or the
  country is in the exclusion list). The cut comes after the filtering: none when the limit
  is absent or \<open>0\<close>, the first \<open>n\<close> items for a limit \<open>n > 0\<close>, and Python's
  \<open>filtered[:n]\<close> (all but the last \<open>-n\<close>) for a negative one.
\<close>

theorem apply_filters_truthy_bounds:
  "subseq (apply_filters xs cfg) xs
   \<and> prefix (apply_filters xs cfg) (filter (\<lambda>i. \<not> continues (filters cfg) i) xs)
   \<and> (limit cfg \<in> {None, Some 0} \<longrightarrow>
        apply_filters xs cfg = filter (\<lambda>i. \<not> continues (filters cfg) i) xs)
   \<and> (\<forall>n. limit cfg = Some n \<and> 0 < n \<longrightarrow>
        apply_filters xs cfg = take (nat n) (filter (\<lambda>i. \<not> continues (filters cfg) i) xs)
        \<and> int (length (apply_filters xs cfg)) \<le> n)
   \<and> (\<forall>n. limit cfg = Some n \<and> n < 0 \<longrightarrow>
        apply_filters xs cfg =
          take (length (filter (\<lambda>i. \<not> continues (filters cfg) i) xs) - nat (- n))
            (filter (\<lambda>i. \<not> continues (filters cfg) i) xs))
   \<and> (continues fs item \<longleftrightarrow>
        (\<exists>b v. year_gte fs = Some b \<and> year item = Some v \<and> b \<noteq> 0 \<and> v \<noteq> 0 \<and> v < b)
      \<or> (\<exists>b v. year_lte fs = Some b \<and> year item = Some v \<and> b \<noteq> 0 \<and> v \<noteq> 0 \<and> b < v)
      \<or> (\<exists>b v. vote_average_gte fs = Some b \<and> vote_average item = Some v \<and> b \<noteq> 0 \<and> v \<noteq> 0 \<and> v < b)
      \<or> (\<exists>b v. critic_rating_gte fs = Some b \<and> vote_average item = Some v \<and> b \<noteq> 0 \<and> v \<noteq> 0 \<and> v < b)
      \<or> (\<exists>b v. tmdb_vote_count_gte fs = Some b \<and> vote_count item = Some v \<and> b \<noteq> 0 \<and> v \<noteq> 0 \<and> v < b)
      \<or> (\<exists>cs c. country_not fs = Some cs \<and> original_country item = Some c \<and> c \<noteq> [] \<and> c \<in> set cs)
      \<or> (\<exists>cs c. origin_country_not fs = Some cs \<and> original_country item = Some c \<and> c \<noteq> [] \<and> c \<in> set cs))"
proof -
  let ?F = "filter (\<lambda>i. \<not> continues (filters cfg) i) xs"
  have 1: "subseq (apply_filters xs cfg) xs"
    by (rule apply_filters_subseq)
  have 2: "prefix (apply_filters xs cfg) ?F"
    by (rule apply_filters_prefix)
  have 3: "limit cfg \<in> {None, Some 0} \<longrightarrow> apply_filters xs cfg = ?F"
    by (auto simp: apply_filters_eq)
  have 4: "\<forall>n. limit cfg = Some n \<and> 0 < n \<longrightarrow>
        apply_filters xs cfg = take (nat n) ?F \<and> int (length (apply_filters xs cfg)) \<le> n"
    by (auto simp: apply_filters_eq py_slice_to_def)
  have 5: "\<forall>n. limit cfg = Some n \<and> n < 0 \<longrightarrow>
        apply_filters xs cfg = take (length ?F - nat (- n)) ?F"
    by (auto simp: apply_filters_eq py_slice_to_def)
  from 1 2 3 4 5 continues_iff [of fs item] show ?thesis by (intro conjI)
qed

text \<open>Scenario C: the 2019 item is dropped by \<open>year_gte = 2020\<close>, the year-less one is kept.\<close>

theorem apply_filters_truthy_bounds_witness:
  "apply_filters [item_2019, no_item, item_2021, year_zero_item] config_2020
     = [no_item, item_2021, year_zero_item]
   \<and> apply_filters [item_2019, no_item, item_2021, year_zero_item] (config_2020\<lparr>limit := Some 2\<rparr>)
     = take 2 [no_item, item_2021, year_zero_item]
   \<and> continues (filters config_2020) item_2019
   \<and> \<not> continues (filters config_2020) no_item"
  using apply_filters_truthy_bounds [of "[item_2019, no_item, item_2021, year_zero_item]"
      config_2020 "filters config_2020" item_2019]
    apply_filters_truthy_bounds [of "[item_2019, no_item, item_2021, year_zero_item]"
      "config_2020\<lparr>limit := Some 2\<rparr>" "filters config_2020" no_item]
  by (simp add: year_zero_item_def item_2019_def item_2021_def config_2020_def no_item_def
      no_config_def no_filter_def continues_def truthy_def truthy_seq_def opt_less_def opt_in_def)

lemma continues_zero:
  "vote_average item = Some 0 \<Longrightarrow>
     continues (fs\<lparr>vote_average_gte := b, critic_rating_gte := r\<rparr>) item
       = continues (fs\<lparr>vote_average_gte := None, critic_rating_gte := None\<rparr>) item"
  "vote_count item = Some 0 \<Longrightarrow>
     continues (fs\<lparr>tmdb_vote_count_gte := c\<rparr>) item = continues (fs\<lparr>tmdb_vote_count_gte := None\<rparr>) item"
  "year item = Some 0 \<Longrightarrow>
     continues (fs\<lparr>year_gte := y, year_lte := z\<rparr>) item
       = continues (fs\<lparr>year_gte := None, year_lte := None\<rparr>) item"
  by (simp_all add: continues_cases truthy_def)

lemma continues_only_bound:
  "vote_average item = Some 0 \<Longrightarrow>
     \<not> continues (no_filter\<lparr>vote_average_gte := b, critic_rating_gte := r\<rparr>) item"
  "vote_count item = Some 0 \<Longrightarrow> \<not> continues (no_filter\<lparr>tmdb_vote_count_gte := c\<rparr>) item"
  "year item = Some 0 \<Longrightarrow> \<not> continues (no_filter\<lparr>year_gte := y, year_lte := z\<rparr>) item"
  by (simp_all add: continues_cases truthy_def truthy_seq_def no_filter_def)

text \<open>
  Claim C10: a zero-valued field counts as absent. The rating of an item is checked
  against two lower bounds, \<open>vote_average_gte\<close> and \<open>critic_rating_gte\<close>. For an item whose
  \<open>vote_average\<close> is \<open>0.0\<close>, being in the output under any values of these two bounds is
  the same as being in it with both removed, whatever the other bounds are; likewise for
  \<open>vote_count = 0\<close> under a lower bound on the vote count and for \<open>year = 0\<close> under the
  bounds on the year. With no other bound set, such an item is in the output: for every
  list that holds it, the output under the rating bounds alone (the vote count bound, the
  year bounds) holds it too.
\<close>

theorem filters_ignore_zero_fields:
  "(\<forall>i \<in> set xs. vote_average i = Some 0 \<longrightarrow>
       (i \<in> set (apply_filters xs
                   (cfg\<lparr>filters := fs\<lparr>vote_average_gte := b, critic_rating_gte := r\<rparr>, limit := None\<rparr>))
        \<longleftrightarrow> i \<in> set (apply_filters xs
                   (cfg\<lparr>filters := fs\<lparr>vote_average_gte := None, critic_rating_gte := None\<rparr>,
                        limit := None\<rparr>))))
   \<and> (\<forall>i \<in> set xs. vote_count i = Some 0 \<longrightarrow>
       (i \<in> set (apply_filters xs (cfg\<lparr>filters := fs\<lparr>tmdb_vote_count_gte := c\<rparr>, limit := None\<rparr>))
        \<longleftrightarrow> i \<in> set (apply_filters xs (cfg\<lparr>filters := fs\<lparr>tmdb_vote_count_gte := None\<rparr>, limit := None\<rparr>))))
   \<and> (\<forall>i \<in> set xs. year i = Some 0 \<longrightarrow>
       (i \<in> set (apply_filters xs (cfg\<lparr>filters := fs\<lparr>year_gte := y, year_lte := z\<rparr>, limit := None\<rparr>))
        \<longleftrightarrow> i \<in> set (apply_filters xs
                   (cfg\<lparr>filters := fs\<lparr>year_gte := None, year_lte := None\<rparr>, limit := None\<rparr>))))
   \<and> (\<forall>i \<in> set xs. vote_average i = Some 0 \<longrightarrow>
       i \<in> set (apply_filters xs
                 (cfg\<lparr>filters := no_filter\<lparr>vote_average_gte := b, critic_rating_gte := r\<rparr>,
                      limit := None\<rparr>)))
   \<and> (\<forall>i \<in> set xs. vote_count i = Some 0 \<longrightarrow>
       i \<in> set (apply_filters xs
                 (cfg\<lparr>filters := no_filter\<lparr>tmdb_vote_count_gte := c\<rparr>, limit := None\<rparr>)))
   \<and> (\<forall>i \<in> set xs. year i = Some 0 \<longrightarrow>
       i \<in> set (apply_filters xs
                 (cfg\<lparr>filters := no_filter\<lparr>year_gte := y, year_lte := z\<rparr>, limit := None\<rparr>)))"
proof -
  have 1: "\<forall>i \<in> set xs. vote_average i = Some 0 \<longrightarrow>
       (i \<in> set (apply_filters xs
                   (cfg\<lparr>filters := fs\<lparr>vote_average_gte := b, critic_rating_gte := r\<rparr>, limit := None\<rparr>))
        \<longleftrightarrow> i \<in> set (apply_filters xs
                   (cfg\<lparr>filters := fs\<lparr>vote_average_gte := None, critic_rating_gte := None\<rparr>,
                        limit := None\<rparr>)))"
    using continues_zero(1) [where fs = fs and b = b and r = r] by (simp add: apply_filters_eq)
  have 2: "\<forall>i \<in> set xs. vote_count i = Some 0 \<longrightarrow>
       (i \<in> set (apply_filters xs (cfg\<lparr>filters := fs\<lparr>tmdb_vote_count_gte := c\<rparr>, limit := None\<rparr>))
        \<longleftrightarrow> i \<in> set (apply_filters xs (cfg\<lparr>filters := fs\<lparr>tmdb_vote_count_gte := None\<rparr>, limit := None\<rparr>)))"
    using continues_zero(2) [where fs = fs and c = c] by (simp add: apply_filters_eq)
  have 3: "\<forall>i \<in> set xs. year i = Some 0 \<longrightarrow>
       (i \<in> set (apply_filters xs (cfg\<lparr>filters := fs\<lparr>year_gte := y, year_lte := z\<rparr>, limit := None\<rparr>))
        \<longleftrightarrow> i \<in> set (apply_filters xs
                   (cfg\<lparr>filters := fs\<lparr>year_gte := None, year_lte := None\<rparr>, limit := None\<rparr>)))"
    using continues_zero(3) [where fs = fs and y = y and z = z] by (simp add: apply_filters_eq)
  have 4: "\<forall>i \<in> set xs. vote_average i = Some 0 \<longrightarrow>
       i \<in> set (apply_filters xs
                 (cfg\<lparr>filters := no_filter\<lparr>vote_average_gte := b, critic_rating_gte := r\<rparr>,
                      limit := None\<rparr>))"
    using continues_only_bound(1) [where b = b and r = r] by (simp add: apply_filters_eq)
  have 5: "\<forall>i \<in> set xs. vote_count i = Some 0 \<longrightarrow>
       i \<in> set (apply_filters xs
                 (cfg\<lparr>filters := no_filter\<lparr>tmdb_vote_count_gte := c\<rparr>, limit := None\<rparr>))"
    using continues_only_bound(2) [where c = c] by (simp add: apply_filters_eq)
  have 6: "\<forall>i \<in> set xs. year i = Some 0 \<longrightarrow>
       i \<in> set (apply_filters xs
                 (cfg\<lparr>filters := no_filter\<lparr>year_gte := y, year_lte := z\<rparr>, limit := None\<rparr>))"
    using continues_only_bound(3) [where y = y and z = z] by (simp add: apply_filters_eq)
  from 1 2 3 4 5 6 show ?thesis by (intro conjI)
qed

text \<open>
  An item rated \<open>0.0\<close> with \<open>0\<close> votes passes \<open>critic_rating_gte = 7\<close>, which drops an item
  rated \<open>5.0\<close>; it passes \<open>vote_average_gte = 7\<close> with a vote count bound of 100, and an item
  of the year \<open>0\<close> passes \<open>year_gte = 2020\<close>.
\<close>

theorem filters_ignore_zero_fields_witness:
  "apply_filters [low_rated_item, unrated_item, well_rated_item] config_critic
     = [unrated_item, well_rated_item]
   \<and> apply_filters [low_rated_item, unrated_item, well_rated_item] config_rated
     = [unrated_item, well_rated_item]
   \<and> vote_average unrated_item = Some 0 \<and> vote_count unrated_item = Some 0
   \<and> unrated_item \<in> set (apply_filters [low_rated_item, unrated_item, well_rated_item]
        (no_config\<lparr>filters := no_filter\<lparr>vote_average_gte := Some 7, critic_rating_gte := Some 7\<rparr>\<rparr>))
   \<and> year_zero_item \<in> set (apply_filters [item_2019, year_zero_item] config_2020)"
  using filters_ignore_zero_fields [where xs = "[low_rated_item, unrated_item, well_rated_item]"
      and cfg = no_config and fs = "no_filter\<lparr>tmdb_vote_count_gte := Some 100\<rparr>" and b = "Some 7"
      and r = "Some 7" and c = "Some 100" and y = "Some 2020" and z = None]
    filters_ignore_zero_fields [where xs = "[item_2019, year_zero_item]"
      and cfg = no_config and fs = no_filter and b = None
      and r = None and c = None and y = "Some 2020" and z = None]
  by (simp add: year_zero_item_def unrated_item_def low_rated_item_def well_rated_item_def
      item_2019_def config_2020_def config_rated_def config_critic_def no_item_def
      no_config_def no_filter_def apply_filters_eq continues_def truthy_def truthy_seq_def
      opt_less_def opt_in_def)

section \<open>Properties of the reconciliation engine\<close>

lemmas jf_defs = with_jellyfin_def get_or_create_def get_collections_def create_collection_def
  get_collection_items_def add_to_collection_def remove_from_collection_def
  update_collection_metadata_def get_collection_def post_item_def jf_send_def response_def
  raise_for_status_def is_success_def json_def await_def return_def

text \<open>
  Claim C5: in dry-run mode \<open>sync_collection\<close> returns \<open>(0, 0)\<close> for every collection and
  leaves the world as it found it: no request reaches the library service (its log and its
  state are the ones before the call) and none reaches an acquisition manager.
\<close>

theorem dry_run_no_effect:
  "sync_collection True collection add_missing w = (Inr (0, 0), w)
   \<and> jellyfin (snd (sync_collection True collection add_missing w)) = jellyfin w
   \<and> jf_log (jellyfin (snd (sync_collection True collection add_missing w))) = jf_log (jellyfin w)
   \<and> radarr (snd (sync_collection True collection add_missing w)) = radarr w
   \<and> sonarr (snd (sync_collection True collection add_missing w)) = sonarr w"
  by (simp add: sync_collection_def return_def)

text \<open>Scenario D on the non-empty collection of scenario B.\<close>

theorem dry_run_no_effect_witness:
  "sync_collection True trending_bcd True world0 = (Inr (0, 0), world0)
   \<and> members (jellyfin (snd (sync_collection True trending_bcd True world0))) ''col-1''
       = {''a'', ''b'', ''c''}"
  using dry_run_no_effect [of trending_bcd True world0]
  by (simp add: world0_def jellyfin0_def)

lemma get_or_create_Inr:
  "get_or_create nm s = (Inr cid, s') \<Longrightarrow>
     cid = resolved_id nm s \<and> members s' = members s \<and> jf_fault s' = jf_fault s"
  by (auto simp: get_or_create_def get_collections_def create_collection_def jf_send_def
      response_def raise_for_status_def json_def await_def return_def resolved_id_def
      split: option.splits fault.splits if_splits)

lemma get_collection_items_Inr:
  "get_collection_items cid s = (Inr current, s') \<Longrightarrow>
     current = members s cid \<and> members s' = members s \<and> jf_fault s' = jf_fault s"
  by (auto simp: get_collection_items_def jf_send_def response_def raise_for_status_def
      json_def await_def split: option.splits fault.splits if_splits)

lemma sync_collection_Inr:
  assumes "sync_collection False c add_missing w = (Inr r, w')"
  shows "r = (card (target_ids c - members (jellyfin w) (resolved_id (name (config c)) (jellyfin w))),
              card (members (jellyfin w) (resolved_id (name (config c)) (jellyfin w)) - target_ids c))"
proof -
  from assms obtain cid s1 current s2 where
    a: "get_or_create (name (config c)) (jellyfin w) = (Inr cid, s1)"
    and b: "get_collection_items cid s1 = (Inr current, s2)"
    and r: "r = (card (target_ids c - current), card (current - target_ids c))"
    by (auto simp: sync_collection_def await_def return_def with_jellyfin_def Let_def
        split: prod.splits sum.splits)
  from get_or_create_Inr [OF a] get_collection_items_Inr [OF b] r show ?thesis by simp
qed

lemma sync_collection_healthy:
  assumes "jf_fault (jellyfin w) = (\<lambda>_. None)"
  shows "fst (sync_collection False c False w) =
           Inr (card (target_ids c - members (jellyfin w) (resolved_id (name (config c)) (jellyfin w))),
                card (members (jellyfin w) (resolved_id (name (config c)) (jellyfin w)) - target_ids c))"
    and "members (jellyfin (snd (sync_collection False c False w)))
           (resolved_id (name (config c)) (jellyfin w)) = target_ids c"
  using assms
  by (auto simp: sync_collection_def jf_defs resolved_id_def Let_def split: option.splits)

lemma target_ids_eq:
  "target_ids c = {i. i \<noteq> [] \<and> Some i \<in> set (map jellyfin_id (items c))}"
proof -
  have "set (List.map_filter (\<lambda>item. when_truthy_seq (jellyfin_id item) (\<lambda>i. i)) xs)
          = {i. i \<noteq> [] \<and> Some i \<in> set (map jellyfin_id xs)}" for xs :: "CollectionItem list"
    by (induction xs)
       (auto simp: List.map_filter_simps when_truthy_seq_def split: option.splits if_splits)
  then show ?thesis by (simp add: target_ids_def)
qed

text \<open>
  Claim C1. With \<open>current\<close> the membership the library service holds for the collection
  and \<open>target\<close> the matched library identifiers of the collection's items: whenever
  \<open>sync_collection\<close> returns, it returns \<open>(|target - current|, |current - target|)\<close>; when
  the library service answers every request it does return, and the membership afterwards
  is \<open>target\<close>; the two differences are disjoint, and removing the one from \<open>current\<close>
  and adding the other gives \<open>target\<close>.
\<close>

theorem sync_collection_diff:
  fixes c :: Collection and w :: world
  defines "cid \<equiv> resolved_id (name (config c)) (jellyfin w)"
  defines "current \<equiv> members (jellyfin w) cid"
  defines "target \<equiv> target_ids c"
  shows "target = {i. i \<noteq> [] \<and> Some i \<in> set (map jellyfin_id (items c))}
    \<and> (fst (sync_collection False c add_missing w) = Inr r \<longrightarrow>
         r = (card (target - current), card (current - target)))
    \<and> (jf_fault (jellyfin w) = (\<lambda>_. None) \<longrightarrow>
         fst (sync_collection False c False w) = Inr (card (target - current), card (current - target))
         \<and> members (jellyfin (snd (sync_collection False c False w))) cid = target)
    \<and> (target - current) \<inter> (current - target) = {}
    \<and> (current - (current - target)) \<union> (target - current) = target"
proof -
  have 1: "target = {i. i \<noteq> [] \<and> Some i \<in> set (map jellyfin_id (items c))}"
    unfolding target_def by (rule target_ids_eq)
  have 2: "fst (sync_collection False c add_missing w) = Inr r \<longrightarrow>
         r = (card (target - current), card (current - target))"
    unfolding target_def current_def cid_def
    using sync_collection_Inr [of c add_missing w r "snd (sync_collection False c add_missing w)"]
    by (metis prod.collapse)
  have 3: "jf_fault (jellyfin w) = (\<lambda>_. None) \<longrightarrow>
         fst (sync_collection False c False w) = Inr (card (target - current), card (current - target))
         \<and> members (jellyfin (snd (sync_collection False c False w))) cid = target"
    unfolding target_def current_def cid_def
    using sync_collection_healthy [of w c] by blast
  have 4: "(target - current) \<inter> (current - target) = {}"
    and 5: "(current - (current - target)) \<union> (target - current) = target"
    by blast+
  from 1 2 3 4 5 show ?thesis by (intro conjI)
qed

text \<open>Scenario B: members a, b, c and target b, c, d give add d, remove a and \<open>(1, 1)\<close>.\<close>

theorem sync_collection_diff_witness:
  "fst (sync_collection False trending_bcd False world0) = Inr (1, 1)
   \<and> members (jellyfin (snd (sync_collection False trending_bcd False world0))) ''col-1''
       = {''b'', ''c'', ''d''}
   \<and> target_ids trending_bcd - members (jellyfin world0) ''col-1'' = {''d''}
   \<and> members (jellyfin world0) ''col-1'' - target_ids trending_bcd = {''a''}"
proof -
  have t: "target_ids trending_bcd = {''b'', ''c'', ''d''}"
    by (simp add: target_ids_def trending_bcd_def in_library_item_def List.map_filter_def
        when_truthy_seq_def)
  have r: "resolved_id (name (config trending_bcd)) (jellyfin world0) = ''col-1''"
    by (simp add: resolved_id_def trending_bcd_def world0_def jellyfin0_def no_config_def)
  have m: "members (jellyfin world0) ''col-1'' = {''a'', ''b'', ''c''}"
    by (simp add: world0_def jellyfin0_def)
  have f: "jf_fault (jellyfin world0) = (\<lambda>_. None)"
    by (simp add: world0_def jellyfin0_def)
  have a: "{''b'', ''c'', ''d''} - {''a'', ''b'', ''c''} = {''d''}"
    and b: "{''a'', ''b'', ''c''} - {''b'', ''c'', ''d''} = {''a''}"
    by auto
  from sync_collection_diff [of trending_bcd False world0 "(1, 1)", THEN conjunct2] f
  show ?thesis by (simp add: t r m a b)
qed

section \<open>Properties of the schedule gate and the run orchestrator\<close>

lemma lower_weekday [simp]:
  "lower ''Monday'' = ''monday''"
  "lower ''Tuesday'' = ''tuesday''"
  "lower ''Wednesday'' = ''wednesday''"
  "lower ''Thursday'' = ''thursday''"
  "lower ''Friday'' = ''friday''"
  "lower ''Saturday'' = ''saturday''"
  "lower ''Sunday'' = ''sunday''"
  "lower ''sunday'' = ''sunday''"
  by (simp_all add: lower_def lower_char_def)

lemma lower_weekday_inj: "lower (strftime_A a) = lower (strftime_A b) \<longleftrightarrow> a = b"
  by (cases a; cases b; simp)

lemma eligible_iff: "eligible cols cfg \<longleftrightarrow> \<not> (truthy_seq cols \<and> \<not> opt_in (Some (name cfg)) cols)"
  by (auto simp: eligible_def truthy_seq_def opt_in_def split: option.splits)

lemma run_configs_manual:
  "run_configs dry_run cols False lib_name library_id media_type cfgs sw =
     foldl (\<lambda>sw cfg. try_collection dry_run cfg lib_name library_id media_type sw) sw
       (filter (eligible cols) cfgs)"
  by (induction cfgs arbitrary: sw) (simp_all add: eligible_iff)

lemma run_configs_skip:
  "eligible cols cfg \<Longrightarrow> \<not> should_run_today (schedule cfg) (now (snd sw)) \<Longrightarrow>
   run_configs dry_run cols True lib_name library_id media_type (cfg # rest) sw =
   run_configs dry_run cols True lib_name library_id media_type rest sw"
  by (simp add: eligible_iff)

lemma keeps_now_return: "keeps_now (return a)"
  by (simp add: keeps_now_def return_def)

lemma keeps_now_await: "keeps_now m \<Longrightarrow> (\<And>a. keeps_now (f a)) \<Longrightarrow> keeps_now (await m f)"
  unfolding keeps_now_def await_def
  by (auto split: prod.splits sum.splits) (metis snd_conv)+

lemma keeps_now_with_jellyfin: "keeps_now (with_jellyfin m)"
  by (simp add: keeps_now_def with_jellyfin_def split: prod.splits)

lemma keeps_now_request_item: "keeps_now (request_item is_series tgs item)"
  by (auto simp: keeps_now_def request_item_def with_sonarr_def with_radarr_def
      split: prod.splits sum.splits option.splits)

lemma now_request_loop: "now (snd (request_loop is_series tgs xs w)) = now w"
proof (induction xs arbitrary: w)
  case Nil
  then show ?case by simp
next
  case (Cons item rest)
  have "now (snd (request_item is_series tgs item w)) = now w"
    using keeps_now_request_item by (simp add: keeps_now_def)
  with Cons show ?case
    by (auto split: prod.splits sum.splits)
qed

lemma keeps_now_add_missing: "keeps_now (add_missing_to_arr c)"
  by (simp add: keeps_now_def add_missing_to_arr_def Let_def now_request_loop)

lemma keeps_now_sync: "keeps_now (sync_collection dry_run c add_missing)"
  unfolding sync_collection_def Let_def
  by (intro keeps_now_await keeps_now_return keeps_now_with_jellyfin keeps_now_add_missing
      | simp only: if_split [where P = keeps_now] | intro conjI impI)+

lemma now_build_and_sync:
  "now (snd (build_and_sync dry_run cfg lib_name library_id media_type w)) = now w"
  using keeps_now_sync [of dry_run _ True]
  by (auto simp: build_and_sync_def keeps_now_def split: sum.splits prod.splits) (metis snd_conv)+

lemma now_try_collection:
  "now (snd (try_collection dry_run cfg lib_name library_id media_type sw)) = now (snd sw)"
  using now_build_and_sync [of dry_run cfg lib_name library_id media_type "snd sw"]
  by (auto simp: try_collection_def notify_def split: sum.splits prod.splits)

lemma run_configs_fold:
  "run_configs dry_run cols scheduled lib_name library_id media_type cfgs sw =
     foldl (\<lambda>sw cfg. try_collection dry_run cfg lib_name library_id media_type sw) sw
       (filter (\<lambda>cfg. eligible cols cfg
                  \<and> (scheduled \<longrightarrow> should_run_today (schedule cfg) (now (snd sw)))) cfgs)"
proof (induction cfgs arbitrary: sw)
  case Nil
  then show ?case by simp
next
  case (Cons cfg rest)
  from Cons [of sw] Cons [of "try_collection dry_run cfg lib_name library_id media_type sw"]
  show ?case
    by (cases scheduled) (simp_all add: eligible_iff now_try_collection)
qed

lemma try_collection_raised:
  "isl (fst (build_and_sync dry_run cfg lib_name library_id media_type (snd sw))) \<Longrightarrow>
   fst (try_collection dry_run cfg lib_name library_id media_type sw) =
     (fst sw)\<lparr>errors := errors (fst sw) + 1\<rparr>"
  by (auto simp: try_collection_def isl_def split: prod.splits sum.splits)

lemma try_collection_returned:
  "fst (build_and_sync dry_run cfg lib_name library_id media_type (snd sw)) = Inr (c, added, removed) \<Longrightarrow>
   fst (try_collection dry_run cfg lib_name library_id media_type sw) =
     (fst sw)\<lparr>collections_updated := collections_updated (fst sw) + 1,
              items_added := items_added (fst sw) + added,
              items_removed := items_removed (fst sw) + removed\<rparr>"
  by (auto simp: try_collection_def split: prod.splits sum.splits)

lemma try_collection_counts:
  "errors (fst (try_collection dry_run cfg lib_name library_id media_type sw))
     + collections_updated (fst (try_collection dry_run cfg lib_name library_id media_type sw))
   = errors (fst sw) + collections_updated (fst sw) + 1"
  by (auto simp: try_collection_def split: prod.splits sum.splits)

lemma foldl_try_collection_counts:
  "errors (fst (foldl (\<lambda>sw cfg. try_collection dry_run cfg lib_name library_id media_type sw) sw cfgs))
     + collections_updated
         (fst (foldl (\<lambda>sw cfg. try_collection dry_run cfg lib_name library_id media_type sw) sw cfgs))
   = errors (fst sw) + collections_updated (fst sw) + length cfgs"
  by (induction cfgs arbitrary: sw) (simp_all add: try_collection_counts)

lemma now_run_configs:
  "now (snd (run_configs dry_run cols scheduled lib_name library_id media_type cfgs sw)) = now (snd sw)"
proof -
  have "now (snd (foldl (\<lambda>sw cfg. try_collection dry_run cfg lib_name library_id media_type sw) s xs))
          = now (snd s)" for s xs
    by (induction xs arbitrary: s) (simp_all add: now_try_collection)
  then show ?thesis by (simp add: run_configs_fold)
qed

lemma run_configs_counts:
  "errors (fst (run_configs dry_run cols scheduled lib_name library_id media_type cfgs sw))
     + collections_updated
         (fst (run_configs dry_run cols scheduled lib_name library_id media_type cfgs sw))
   = errors (fst sw) + collections_updated (fst sw)
     + length (filter (\<lambda>cfg. eligible cols cfg
                  \<and> (scheduled \<longrightarrow> should_run_today (schedule cfg) (now (snd sw)))) cfgs)"
  unfolding run_configs_fold by (rule foldl_try_collection_counts)

lemma run_libraries_fold:
  "run_libraries dry_run cols scheduled library_id_map libs sw =
     foldl (\<lambda>sw lib.
              if truthy_seq (library_id_map (fst lib))
              then run_configs dry_run cols scheduled (fst lib) (the (library_id_map (fst lib)))
                     (infer_media_type (fst lib)) (snd lib) sw
              else ((fst sw)\<lparr>errors := errors (fst sw) + 1\<rparr>, snd sw))
       sw libs"
proof (induction libs arbitrary: sw)
  case Nil
  then show ?case by simp
next
  case (Cons lib rest)
  obtain lib_name cfgs where lib: "lib = (lib_name, cfgs)" by (cases lib)
  show ?case
  proof (cases "truthy_seq (library_id_map lib_name)")
    case False
    with Cons [of "((fst sw)\<lparr>errors := errors (fst sw) + 1\<rparr>, snd sw)"] lib
    show ?thesis by simp
  next
    case True
    then obtain library_id where m: "library_id_map lib_name = Some library_id"
      by (auto simp: truthy_seq_def split: option.splits)
    from Cons [of "run_configs dry_run cols scheduled lib_name library_id
                     (infer_media_type lib_name) cfgs sw"] True m lib
    show ?thesis by simp
  qed
qed

lemma run_libraries_counts:
  "errors (fst (run_libraries dry_run cols scheduled library_id_map libs sw))
     + collections_updated (fst (run_libraries dry_run cols scheduled library_id_map libs sw))
   = errors (fst sw) + collections_updated (fst sw)
     + sum_list (map (\<lambda>lib.
         if truthy_seq (library_id_map (fst lib))
         then length (filter (\<lambda>cfg. eligible cols cfg
                        \<and> (scheduled \<longrightarrow> should_run_today (schedule cfg) (now (snd sw)))) (snd lib))
         else 1) libs)"
proof (induction libs arbitrary: sw)
  case Nil
  then show ?case by simp
next
  case (Cons lib rest)
  obtain lib_name cfgs where lib: "lib = (lib_name, cfgs)" by (cases lib)
  show ?case
  proof (cases "truthy_seq (library_id_map lib_name)")
    case False
    with Cons [of "((fst sw)\<lparr>errors := errors (fst sw) + 1\<rparr>, snd sw)"] lib
    show ?thesis by (simp cong del: if_weak_cong)
  next
    case True
    then obtain library_id where m: "library_id_map lib_name = Some library_id"
      by (auto simp: truthy_seq_def split: option.splits)
    let ?sw = "run_configs dry_run cols scheduled lib_name library_id (infer_media_type lib_name) cfgs sw"
    from Cons [of ?sw] True m lib
      run_configs_counts [of dry_run cols scheduled lib_name library_id "infer_media_type lib_name" cfgs sw]
    show ?thesis by (simp add: now_run_configs cong del: if_weak_cong)
  qed
qed

lemma get_libraries_answered:
  "jf_fault s GetLibraries = None \<Longrightarrow>
   get_libraries s = (Inr (libraries s), s\<lparr>jf_log := jf_log s @ [GetLibraries]\<rparr>)"
  by (simp add: get_libraries_def jf_send_def response_def raise_for_status_def is_success_def
      json_def await_def)

lemma run_eq:
  assumes "jf_fault (jellyfin w) GetLibraries = None"
  shows "\<exists>w'. now w' = now w \<and>
     fst (run dry_run parsed libs cols scheduled w) =
       Inr (fst (run_libraries dry_run cols scheduled (map_of (rev (libraries (jellyfin w))))
                  (if truthy_seq libs then filter (\<lambda>kv. opt_in (Some (fst kv)) libs) parsed
                   else parsed)
                  (\<lparr>collections_updated = 0, items_added = 0, items_removed = 0, errors = 0\<rparr>, w')))"
proof -
  let ?all = "if truthy_seq libs then filter (\<lambda>kv. opt_in (Some (fst kv)) libs) parsed else parsed"
  let ?w = "notify (RunStart (map fst ?all) scheduled) w"
  have f: "jf_fault (jellyfin ?w) GetLibraries = None"
    using assms by (simp add: notify_def)
  have "with_jellyfin get_libraries ?w =
          (Inr (libraries (jellyfin w)),
           ?w\<lparr>jellyfin := (jellyfin ?w)\<lparr>jf_log := jf_log (jellyfin ?w) @ [GetLibraries]\<rparr>\<rparr>)"
    using get_libraries_answered [OF f] by (simp add: with_jellyfin_def notify_def)
  then have "fst (run dry_run parsed libs cols scheduled w) =
       Inr (fst (run_libraries dry_run cols scheduled (map_of (rev (libraries (jellyfin w)))) ?all
                  (\<lparr>collections_updated = 0, items_added = 0, items_removed = 0, errors = 0\<rparr>,
                   ?w\<lparr>jellyfin := (jellyfin ?w)\<lparr>jf_log := jf_log (jellyfin ?w) @ [GetLibraries]\<rparr>\<rparr>)))"
    by (simp add: run_def Let_def split_beta)
  moreover have "now (?w\<lparr>jellyfin := (jellyfin ?w)\<lparr>jf_log := jf_log (jellyfin ?w) @ [GetLibraries]\<rparr>\<rparr>)
                   = now w"
    by (simp add: notify_def)
  ultimately show ?thesis by blast
qed

lemma run_counts:
  assumes "jf_fault (jellyfin w) GetLibraries = None"
  shows "case fst (run dry_run parsed libs cols scheduled w) of
           Inl e \<Rightarrow> False
         | Inr st \<Rightarrow>
             errors st + collections_updated st =
               sum_list (map (\<lambda>lib.
                   if truthy_seq (map_of (rev (libraries (jellyfin w))) (fst lib))
                   then length (filter (\<lambda>cfg. eligible cols cfg
                          \<and> (scheduled \<longrightarrow> should_run_today (schedule cfg) (now w))) (snd lib))
                   else 1)
                 (if truthy_seq libs then filter (\<lambda>kv. opt_in (Some (fst kv)) libs) parsed
                  else parsed))"
proof -
  from run_eq [OF assms, where dry_run = dry_run and parsed = parsed and libs = libs
      and cols = cols and scheduled = scheduled] obtain w' where
    n: "now w' = now w" and
    r: "fst (run dry_run parsed libs cols scheduled w) =
       Inr (fst (run_libraries dry_run cols scheduled (map_of (rev (libraries (jellyfin w))))
                  (if truthy_seq libs then filter (\<lambda>kv. opt_in (Some (fst kv)) libs) parsed
                   else parsed)
                  (\<lparr>collections_updated = 0, items_added = 0, items_removed = 0, errors = 0\<rparr>, w')))"
    by blast
  show ?thesis
    unfolding r sum.case
    using run_libraries_counts [of dry_run cols scheduled "map_of (rev (libraries (jellyfin w)))"
        "if truthy_seq libs then filter (\<lambda>kv. opt_in (Some (fst kv)) libs) parsed else parsed"
        "(\<lparr>collections_updated = 0, items_added = 0, items_removed = 0, errors = 0\<rparr>, w')"]
    by (simp add: n cong del: if_weak_cong)
qed

lemmas run_defs = run_def run_libraries.simps run_configs.simps try_collection_def
  build_and_sync_def build_collection_def fetch_items_def match_loop.simps collection_item_def
  apply_filters_def filter_loop.simps continues_def deduplicate_def dedup_loop.simps
  extend_all.simps when_truthy_def when_truthy_seq_def add_missing_to_arr_def
  request_loop.simps request_item_def with_sonarr_def with_radarr_def get_libraries_def
  target_ids_def List.map_filter_def infer_media_type_def notify_def
  sync_collection_def truthy_def truthy_seq_def opt_in_def opt_less_def Let_def

text \<open>
  Claim C3. The \<open>try\<close> statement of the orchestrator turns an exception raised while
  building or syncing a collection into one more error and nothing else in the statistics,
  and a normal return into one more updated collection with its two counts. The loop over
  the collection definitions of a library is the fold of that statement over the selected
  definitions (those that pass the name filter and, in a scheduled run, the schedule gate),
  and the loop over the libraries is the fold, over all of them, of that loop (or of one
  more error, for a library the library service does not list): every selected definition
  of every library is attempted, whatever happened to the ones before. So errors and
  updated collections together grow by the number of selected definitions of the libraries
  found plus the number of libraries not found; and a run for which the library service
  answers the request for the libraries returns statistics in which errors and updated
  collections add up to that number. With three definitions of which only the second
  raises, the run counts one error and two updated collections.
\<close>

theorem failure_isolation:
  "(isl (fst (build_and_sync dry_run cfg lib_name library_id media_type (snd sw))) \<longrightarrow>
      fst (try_collection dry_run cfg lib_name library_id media_type sw) =
        (fst sw)\<lparr>errors := errors (fst sw) + 1\<rparr>)
   \<and> (fst (build_and_sync dry_run cfg lib_name library_id media_type (snd sw))
          = Inr (c, added, removed) \<longrightarrow>
      fst (try_collection dry_run cfg lib_name library_id media_type sw) =
        (fst sw)\<lparr>collections_updated := collections_updated (fst sw) + 1,
                 items_added := items_added (fst sw) + added,
                 items_removed := items_removed (fst sw) + removed\<rparr>)
   \<and> run_configs dry_run cols scheduled lib_name library_id media_type cfgs sw =
        foldl (\<lambda>sw cfg. try_collection dry_run cfg lib_name library_id media_type sw) sw
          (filter (\<lambda>cfg. eligible cols cfg
                     \<and> (scheduled \<longrightarrow> should_run_today (schedule cfg) (now (snd sw)))) cfgs)
   \<and> errors (fst (run_configs dry_run cols scheduled lib_name library_id media_type cfgs sw))
        + collections_updated
            (fst (run_configs dry_run cols scheduled lib_name library_id media_type cfgs sw))
      = errors (fst sw) + collections_updated (fst sw)
        + length (filter (\<lambda>cfg. eligible cols cfg
                     \<and> (scheduled \<longrightarrow> should_run_today (schedule cfg) (now (snd sw)))) cfgs)
   \<and> (\<not> isl (fst (build_and_sync dry_run cfg_a lib_name library_id media_type (snd sw)))
        \<and> isl (fst (build_and_sync dry_run cfg_b lib_name library_id media_type
                    (snd (try_collection dry_run cfg_a lib_name library_id media_type sw))))
        \<and> \<not> isl (fst (build_and_sync dry_run cfg_c lib_name library_id media_type
                    (snd (try_collection dry_run cfg_b lib_name library_id media_type
                       (try_collection dry_run cfg_a lib_name library_id media_type sw))))) \<longrightarrow>
        errors (fst (run_configs dry_run None False lib_name library_id media_type [cfg_a, cfg_b, cfg_c] sw))
          = errors (fst sw) + 1
        \<and> collections_updated
            (fst (run_configs dry_run None False lib_name library_id media_type [cfg_a, cfg_b, cfg_c] sw))
          = collections_updated (fst sw) + 2)
   \<and> (jf_fault (jellyfin w) GetLibraries = None \<longrightarrow>
        \<not> isl (fst (run dry_run parsed libs cols scheduled w)))
   \<and> run_libraries dry_run cols scheduled library_id_map all_collections sw =
        foldl (\<lambda>sw lib.
                 if truthy_seq (library_id_map (fst lib))
                 then run_configs dry_run cols scheduled (fst lib) (the (library_id_map (fst lib)))
                        (infer_media_type (fst lib)) (snd lib) sw
                 else ((fst sw)\<lparr>errors := errors (fst sw) + 1\<rparr>, snd sw))
          sw all_collections
   \<and> errors (fst (run_libraries dry_run cols scheduled library_id_map all_collections sw))
        + collections_updated
            (fst (run_libraries dry_run cols scheduled library_id_map all_collections sw))
      = errors (fst sw) + collections_updated (fst sw)
        + sum_list (map (\<lambda>lib.
            if truthy_seq (library_id_map (fst lib))
            then length (filter (\<lambda>cfg. eligible cols cfg
                           \<and> (scheduled \<longrightarrow> should_run_today (schedule cfg) (now (snd sw)))) (snd lib))
            else 1) all_collections)
   \<and> (jf_fault (jellyfin w) GetLibraries = None \<longrightarrow>
        (case fst (run dry_run parsed libs cols scheduled w) of
           Inl e \<Rightarrow> False
         | Inr st \<Rightarrow>
             errors st + collections_updated st =
               sum_list (map (\<lambda>lib.
                   if truthy_seq (map_of (rev (libraries (jellyfin w))) (fst lib))
                   then length (filter (\<lambda>cfg. eligible cols cfg
                          \<and> (scheduled \<longrightarrow> should_run_today (schedule cfg) (now w))) (snd lib))
                   else 1)
                 (if truthy_seq libs then filter (\<lambda>kv. opt_in (Some (fst kv)) libs) parsed
                  else parsed))))"
proof -
  let ?attempt = "\<lambda>cfg sw. try_collection dry_run cfg lib_name library_id media_type sw"
  have ok: "\<not> isl (fst (build_and_sync dry_run k lib_name library_id media_type (snd s))) \<Longrightarrow>
      errors (fst (?attempt k s)) = errors (fst s)
      \<and> collections_updated (fst (?attempt k s)) = collections_updated (fst s) + 1" for k s
    by (auto simp: try_collection_def isl_def split: prod.splits sum.splits)
  have bad: "isl (fst (build_and_sync dry_run k lib_name library_id media_type (snd s))) \<Longrightarrow>
      errors (fst (?attempt k s)) = errors (fst s) + 1
      \<and> collections_updated (fst (?attempt k s)) = collections_updated (fst s)" for k s
    by (simp add: try_collection_raised)
  have 1: "isl (fst (build_and_sync dry_run cfg lib_name library_id media_type (snd sw))) \<longrightarrow>
      fst (?attempt cfg sw) = (fst sw)\<lparr>errors := errors (fst sw) + 1\<rparr>"
    by (simp add: try_collection_raised)
  have 2: "fst (build_and_sync dry_run cfg lib_name library_id media_type (snd sw))
          = Inr (c, added, removed) \<longrightarrow>
      fst (?attempt cfg sw) =
        (fst sw)\<lparr>collections_updated := collections_updated (fst sw) + 1,
                 items_added := items_added (fst sw) + added,
                 items_removed := items_removed (fst sw) + removed\<rparr>"
    by (simp add: try_collection_returned)
  note 3 = run_configs_fold [of dry_run cols scheduled lib_name library_id media_type cfgs sw]
  note 4 = run_configs_counts [of dry_run cols scheduled lib_name library_id media_type cfgs sw]
  have 5: "\<not> isl (fst (build_and_sync dry_run cfg_a lib_name library_id media_type (snd sw)))
        \<and> isl (fst (build_and_sync dry_run cfg_b lib_name library_id media_type
                    (snd (?attempt cfg_a sw))))
        \<and> \<not> isl (fst (build_and_sync dry_run cfg_c lib_name library_id media_type
                    (snd (?attempt cfg_b (?attempt cfg_a sw))))) \<longrightarrow>
        errors (fst (run_configs dry_run None False lib_name library_id media_type [cfg_a, cfg_b, cfg_c] sw))
          = errors (fst sw) + 1
        \<and> collections_updated
            (fst (run_configs dry_run None False lib_name library_id media_type [cfg_a, cfg_b, cfg_c] sw))
          = collections_updated (fst sw) + 2"
    using ok [of cfg_a sw] bad [of cfg_b "?attempt cfg_a sw"] ok [of cfg_c "?attempt cfg_b (?attempt cfg_a sw)"]
    by (simp add: truthy_seq_def)
  have 6: "jf_fault (jellyfin w) GetLibraries = None \<longrightarrow>
        \<not> isl (fst (run dry_run parsed libs cols scheduled w))"
    using run_eq [where w = w and dry_run = dry_run and parsed = parsed and libs = libs
        and cols = cols and scheduled = scheduled] by auto
  note 7 = run_libraries_fold [of dry_run cols scheduled library_id_map all_collections sw]
  note 8 = run_libraries_counts [of dry_run cols scheduled library_id_map all_collections sw]
  have 9: "jf_fault (jellyfin w) GetLibraries = None \<longrightarrow>
        (case fst (run dry_run parsed libs cols scheduled w) of
           Inl e \<Rightarrow> False
         | Inr st \<Rightarrow>
             errors st + collections_updated st =
               sum_list (map (\<lambda>lib.
                   if truthy_seq (map_of (rev (libraries (jellyfin w))) (fst lib))
                   then length (filter (\<lambda>cfg. eligible cols cfg
                          \<and> (scheduled \<longrightarrow> should_run_today (schedule cfg) (now w))) (snd lib))
                   else 1)
                 (if truthy_seq libs then filter (\<lambda>kv. opt_in (Some (fst kv)) libs) parsed
                  else parsed)))"
    using run_counts [where w = w and dry_run = dry_run and parsed = parsed and libs = libs
        and cols = cols and scheduled = scheduled] by blast
  from 1 2 3 4 5 6 7 8 9 show ?thesis by (intro conjI)
qed

text \<open>
  Scenario E in a run over three libraries: collections A, B, C in the first, the library
  service refusing to create B; a library the service does not list; and a third library
  with one collection. The error in B stops neither C nor the libraries after it.
\<close>

theorem failure_isolation_witness:
  "fst (run False
         [(''Films'', [popular_config ''A'', popular_config ''B'', popular_config ''C'']),
          (''Music'', [popular_config ''M'']),
          (''Shows'', [popular_config ''D''])]
         None None False world_libs)
     = Inr \<lparr>collections_updated = 3, items_added = 2, items_removed = 0, errors = 2\<rparr>
   \<and> map snd (boxsets (jellyfin (snd (run False
         [(''Films'', [popular_config ''A'', popular_config ''B'', popular_config ''C'']),
          (''Music'', [popular_config ''M'']),
          (''Shows'', [popular_config ''D''])]
         None None False world_libs))))
     = [''Trending'', ''A'', ''C'', ''D'']
   \<and> fst (build_and_sync False (popular_config ''B'') ''Films'' ''lib-1'' MOVIE
           (snd (try_collection False (popular_config ''A'') ''Films'' ''lib-1'' MOVIE
              (stats0, world_libs))))
       = Inl (HTTPStatusError 500)
   \<and> errors (fst (run_configs False None False ''Films'' ''lib-1'' MOVIE
         [popular_config ''A'', popular_config ''B'', popular_config ''C''] (stats0, world_libs))) = 1
   \<and> collections_updated (fst (run_configs False None False ''Films'' ''lib-1'' MOVIE
         [popular_config ''A'', popular_config ''B'', popular_config ''C''] (stats0, world_libs))) = 2
   \<and> sum_list (map (\<lambda>lib.
         if truthy_seq (map_of (rev (libraries (jellyfin world_libs))) (fst lib))
         then length (filter (eligible None) (snd lib)) else 1)
        [(''Films'', [popular_config ''A'', popular_config ''B'', popular_config ''C'']),
         (''Music'', [popular_config ''M'']),
         (''Shows'', [popular_config ''D''])]) = 5"
proof -
  have a: "fst (run False
         [(''Films'', [popular_config ''A'', popular_config ''B'', popular_config ''C'']),
          (''Music'', [popular_config ''M'']),
          (''Shows'', [popular_config ''D''])]
         None None False world_libs)
     = Inr \<lparr>collections_updated = 3, items_added = 2, items_removed = 0, errors = 2\<rparr>
   \<and> map snd (boxsets (jellyfin (snd (run False
         [(''Films'', [popular_config ''A'', popular_config ''B'', popular_config ''C'']),
          (''Music'', [popular_config ''M'']),
          (''Shows'', [popular_config ''D''])]
         None None False world_libs))))
     = [''Trending'', ''A'', ''C'', ''D'']"
    by (simp add: run_defs jf_defs world_libs_def world_e_def world0_def jellyfin0_def
        popular_config_def no_config_def no_filter_def no_schedule_def matrix_first_def
        no_item_def stats0_def lower_def lower_char_def)
  have b: "fst (build_and_sync False (popular_config ''B'') ''Films'' ''lib-1'' MOVIE
           (snd (try_collection False (popular_config ''A'') ''Films'' ''lib-1'' MOVIE
              (stats0, world_libs))))
       = Inl (HTTPStatusError 500)
   \<and> errors (fst (run_configs False None False ''Films'' ''lib-1'' MOVIE
         [popular_config ''A'', popular_config ''B'', popular_config ''C''] (stats0, world_libs))) = 1
   \<and> collections_updated (fst (run_configs False None False ''Films'' ''lib-1'' MOVIE
         [popular_config ''A'', popular_config ''B'', popular_config ''C''] (stats0, world_libs))) = 2"
    by (simp add: run_defs jf_defs world_libs_def world_e_def world0_def jellyfin0_def
        popular_config_def no_config_def no_filter_def no_schedule_def matrix_first_def
        no_item_def stats0_def lower_def lower_char_def)
  have f: "jf_fault (jellyfin world_libs) GetLibraries = None"
    by (simp add: world_libs_def world_e_def jellyfin0_def)
  have l: "libraries (jellyfin world_libs) = [(''Films'', ''lib-1''), (''Shows'', ''lib-2'')]"
    by (simp add: world_libs_def)
  have e: "eligible None cfg" for cfg
    by (simp add: eligible_def)
  from failure_isolation [where dry_run = False and w = world_libs and cols = None
      and scheduled = False and libs = None and cfgs = "[]" and all_collections = "[]"
      and sw = "(stats0, world_libs)" and cfg = "popular_config ''B''"
      and cfg_a = "popular_config ''A''" and cfg_b = "popular_config ''B''"
      and cfg_c = "popular_config ''C''" and lib_name = "''Films''"
      and library_id = "''lib-1''" and media_type = MOVIE
      and parsed =
        "[(''Films'', [popular_config ''A'', popular_config ''B'', popular_config ''C'']),
          (''Music'', [popular_config ''M'']),
          (''Shows'', [popular_config ''D''])]"]
    a b f
  show ?thesis by (simp add: l e truthy_seq_def)
qed

text \<open>
  Claim C6. The gate is true for \<open>daily\<close> and false for \<open>never\<close>. For \<open>weekly\<close> it is true
  iff the lower-cased weekday name of the date equals the lower-cased configured day
  (\<open>sunday\<close> when none is configured); so when the configured day names a weekday, that
  weekday is the only one of the seven on which the gate is true. For \<open>monthly\<close> it is
  true iff the day of the month equals the configured day (1 when none is configured); so
  among the days \<open>1..n\<close> of a month of \<open>n\<close> days it is true on the configured day alone,
  and on none when that day is not among them. A manual run never consults the gate: it
  processes every definition that passes the name filter, whatever its schedule, while a
  scheduled run processes those that also pass the gate.
\<close>

theorem schedule_gate:
  "(schedule_type s = DAILY \<longrightarrow> should_run_today s today)
   \<and> (schedule_type s = NEVER \<longrightarrow> \<not> should_run_today s today)
   \<and> (schedule_type s = WEEKLY \<longrightarrow>
        (should_run_today s today \<longleftrightarrow>
           lower (strftime_A (dt_weekday today)) = lower (py_or_seq (day_of_week s) ''sunday'')))
   \<and> (schedule_type s = WEEKLY \<and> day_of_week s \<in> {None, Some []} \<longrightarrow>
        (should_run_today s today \<longleftrightarrow> dt_weekday today = Sunday))
   \<and> (schedule_type s = WEEKLY
        \<and> lower (py_or_seq (day_of_week s) ''sunday'') = lower (strftime_A d) \<longrightarrow>
        {d'. should_run_today s (today\<lparr>dt_weekday := d'\<rparr>)} = {d})
   \<and> (schedule_type s = MONTHLY \<longrightarrow>
        (should_run_today s today \<longleftrightarrow> dt_day today = py_or (day_of_month s) 1))
   \<and> (schedule_type s = MONTHLY \<longrightarrow>
        {k. 1 \<le> k \<and> k \<le> n \<and> should_run_today s (today\<lparr>dt_day := k\<rparr>)} =
          (if 1 \<le> py_or (day_of_month s) 1 \<and> py_or (day_of_month s) 1 \<le> n
           then {py_or (day_of_month s) 1} else {}))
   \<and> run_configs dry_run cols False lib_name library_id media_type cfgs sw =
        foldl (\<lambda>sw cfg. try_collection dry_run cfg lib_name library_id media_type sw) sw
          (filter (eligible cols) cfgs)
   \<and> run_configs dry_run cols True lib_name library_id media_type cfgs sw =
        foldl (\<lambda>sw cfg. try_collection dry_run cfg lib_name library_id media_type sw) sw
          (filter (\<lambda>cfg. eligible cols cfg \<and> should_run_today (schedule cfg) (now (snd sw)))
             cfgs)"
proof -
  have 1: "schedule_type s = DAILY \<longrightarrow> should_run_today s today"
    and 2: "schedule_type s = NEVER \<longrightarrow> \<not> should_run_today s today"
    and 3: "schedule_type s = WEEKLY \<longrightarrow>
        (should_run_today s today \<longleftrightarrow>
           lower (strftime_A (dt_weekday today)) = lower (py_or_seq (day_of_week s) ''sunday''))"
    and 6: "schedule_type s = MONTHLY \<longrightarrow>
        (should_run_today s today \<longleftrightarrow> dt_day today = py_or (day_of_month s) 1)"
    by (simp_all add: should_run_today_def)
  have 4: "schedule_type s = WEEKLY \<and> day_of_week s \<in> {None, Some []} \<longrightarrow>
        (should_run_today s today \<longleftrightarrow> dt_weekday today = Sunday)"
    using lower_weekday_inj [of "dt_weekday today" Sunday]
    by (auto simp: should_run_today_def py_or_seq_def)
  have 5: "schedule_type s = WEEKLY
        \<and> lower (py_or_seq (day_of_week s) ''sunday'') = lower (strftime_A d) \<longrightarrow>
        {d'. should_run_today s (today\<lparr>dt_weekday := d'\<rparr>)} = {d}"
    by (auto simp: should_run_today_def lower_weekday_inj)
  have 7: "schedule_type s = MONTHLY \<longrightarrow>
        {k. 1 \<le> k \<and> k \<le> n \<and> should_run_today s (today\<lparr>dt_day := k\<rparr>)} =
          (if 1 \<le> py_or (day_of_month s) 1 \<and> py_or (day_of_month s) 1 \<le> n
           then {py_or (day_of_month s) 1} else {})"
    by (auto simp: should_run_today_def)
  note 8 = run_configs_manual [of dry_run cols lib_name library_id media_type cfgs sw]
  have 9: "run_configs dry_run cols True lib_name library_id media_type cfgs sw =
        foldl (\<lambda>sw cfg. try_collection dry_run cfg lib_name library_id media_type sw) sw
          (filter (\<lambda>cfg. eligible cols cfg \<and> should_run_today (schedule cfg) (now (snd sw)))
             cfgs)"
    using run_configs_fold [of dry_run cols True lib_name library_id media_type cfgs sw] by simp
  from 1 2 3 4 5 6 7 8 9 show ?thesis by (intro conjI)
qed

text \<open>
  A weekly schedule on Saturday, a monthly one on the 31st in months of 30 and 31 days, and
  a definition scheduled \<open>never\<close>, processed by a manual run and skipped by a scheduled one.
\<close>

theorem schedule_gate_witness:
  "should_run_today weekly_saturday \<lparr>dt_day = 5, dt_weekday = Saturday\<rparr>
   \<and> \<not> should_run_today weekly_saturday \<lparr>dt_day = 6, dt_weekday = Sunday\<rparr>
   \<and> {d'. should_run_today weekly_saturday \<lparr>dt_day = 5, dt_weekday = d'\<rparr>} = {Saturday}
   \<and> {k. 1 \<le> k \<and> k \<le> 30 \<and> should_run_today monthly_31 \<lparr>dt_day = k, dt_weekday = Monday\<rparr>} = {}
   \<and> {k. 1 \<le> k \<and> k \<le> 31 \<and> should_run_today monthly_31 \<lparr>dt_day = k, dt_weekday = Monday\<rparr>} = {31}
   \<and> \<not> should_run_today (schedule never_config) (now world_e)
   \<and> fst (run_configs False None False ''Films'' ''lib-1'' MOVIE [never_config] (stats0, world_e))
       = \<lparr>collections_updated = 1, items_added = 1, items_removed = 0, errors = 0\<rparr>
   \<and> run_configs False None True ''Films'' ''lib-1'' MOVIE [never_config] (stats0, world_e)
       = (stats0, world_e)"
proof -
  have a: "lower (py_or_seq (day_of_week weekly_saturday) ''sunday'') = lower (strftime_A Saturday)"
    by (simp add: weekly_saturday_def py_or_seq_def lower_def lower_char_def)
  have e: "eligible None never_config"
    by (simp add: eligible_def)
  from schedule_gate [where s = weekly_saturday and d = Saturday
      and today = "\<lparr>dt_day = 5, dt_weekday = Saturday\<rparr>" and n = 30 and dry_run = False
      and cols = None and lib_name = "''Films''" and library_id = "''lib-1''"
      and media_type = MOVIE and cfgs = "[never_config]" and sw = "(stats0, world_e)"]
    schedule_gate [where s = weekly_saturday and d = Saturday
      and today = "\<lparr>dt_day = 6, dt_weekday = Sunday\<rparr>" and n = 30 and cfgs = "[]"]
    schedule_gate [where s = monthly_31 and today = "\<lparr>dt_day = 1, dt_weekday = Monday\<rparr>"
      and n = 30 and cfgs = "[]"]
    schedule_gate [where s = monthly_31 and today = "\<lparr>dt_day = 1, dt_weekday = Monday\<rparr>"
      and n = 31 and cfgs = "[]"]
    schedule_gate [where s = "schedule never_config" and today = "now world_e" and cfgs = "[]"]
    a e
  show ?thesis
    by (simp add: weekly_saturday_def monthly_31_def never_config_def py_or_def
        run_defs jf_defs world_e_def world0_def jellyfin0_def popular_config_def
        no_config_def no_filter_def no_schedule_def matrix_first_def no_item_def stats0_def
        lower_def lower_char_def)
qed

section \<open>Properties of the acquisition dispatcher\<close>

lemmas arr_defs = add_movie_def add_series_def movie_exists_def series_exists_def
  get_movie_by_tmdb_id_def get_series_by_tvdb_id_def lookup_movie_def lookup_series_def
  register_title_def get_quality_profile_id_def get_quality_profiles_def
  get_root_folder_path_def get_root_folders_def get_or_create_tag_def get_tags_def
  post_tag_def post_title_def tag_ids_loop.simps arr_send_def response_def
  raise_for_status_def is_success_def json_def py_or_seq_def

text \<open>
  Claim C7 at a concrete input. The collection is built, its two removals and its metadata
  sync succeed (without the acquisition step \<open>sync_collection\<close> returns \<open>(0, 2)\<close>, and
  the library service holds the one target member afterwards), and Radarr answers the
  existence check about the missing title with status 500. \<open>get_movie_by_tmdb_id\<close> raises
  from \<open>raise_for_status\<close>, \<open>add_movie\<close> does not return \<open>None\<close> but raises, nothing between
  the request and the orchestrator catches the exception, and the collection is counted as
  an error, not as updated, with no add/remove result. The other failures of \<open>add_movie\<close>
  are returned as \<open>None\<close> and leave the collection updated: a title the lookup does not
  find, and a final POST that Radarr refuses with status 500.
\<close>

theorem acquisition_failure_fails_collection:
  "build_collection world_down (popular_config ''Trending'') ''Films'' ''lib-1'' MOVIE = Inr wanted
   \<and> fst (sync_collection False wanted False world_down) = Inr (0, 2)
   \<and> fst (sync_collection False wanted True world_down) = Inl (HTTPStatusError 500)
   \<and> members (jellyfin (snd (sync_collection False wanted True world_down))) ''col-1'' = {''b''}
   \<and> fst (try_collection False (popular_config ''Trending'') ''Films'' ''lib-1'' MOVIE
           (stats0, world_down))
       = \<lparr>collections_updated = 0, items_added = 0, items_removed = 0, errors = 1\<rparr>
   \<and> fst (add_movie 604 None arr_down) = Inl (HTTPStatusError 500)
   \<and> fst (add_movie 605 None arr0) = Inr None
   \<and> fst (sync_collection False wanted True world_refused) = Inr (0, 2)
   \<and> map_option titles (radarr (snd (sync_collection False wanted True world_refused))) = Some []
   \<and> fst (try_collection False (popular_config ''Trending'') ''Films'' ''lib-1'' MOVIE
           (stats0, world_refused))
       = \<lparr>collections_updated = 1, items_added = 0, items_removed = 2, errors = 0\<rparr>"
  by (simp add: run_defs jf_defs arr_defs world_down_def world_refused_def world0_def
      jellyfin0_def arr0_def arr_down_def
      popular_config_def wanted_def wanted_item_def
      no_config_def no_filter_def no_schedule_def matrix_first_def no_item_def stats0_def
      lower_def lower_char_def)
     auto

lemma get_series_eq: "get_series_by_tvdb_id = get_movie_by_tmdb_id"
  by (intro ext) (simp add: get_series_by_tvdb_id_def get_movie_by_tmdb_id_def)

lemma lookup_series_eq: "lookup_series = lookup_movie"
  by (intro ext) (simp add: lookup_series_def lookup_movie_def)

lemma series_exists_eq: "series_exists = movie_exists"
  by (intro ext) (simp add: series_exists_def movie_exists_def get_series_eq)

lemma add_series_eq: "add_series = add_movie"
  by (intro ext)
     (simp add: add_series_def add_movie_def series_exists_eq get_series_eq lookup_series_eq
        cong del: if_weak_cong)

lemma requested_simps [simp]:
  "requested [] = []"
  "requested (l @ k) = requested l @ requested k"
  "requested (GetTitle i # l) = i # requested l"
  "requested (LookupTitle i # l) = requested l"
  "requested (GetQualityProfiles # l) = requested l"
  "requested (GetRootFolders # l) = requested l"
  "requested (GetTags # l) = requested l"
  "requested (PostTag nm # l) = requested l"
  "requested (PostTitle i tag_ids # l) = requested l"
  by (simp_all add: requested_def title_of_def List.map_filter_def)

lemma asks_return: "asks A (return a)"
  by (simp add: asks_def return_def)

lemma asks_json: "asks A (json body)"
  by (simp add: asks_def json_def)

lemma asks_raise_for_status: "asks A (raise_for_status status_code)"
  by (simp add: asks_def raise_for_status_def)

lemma asks_arr_send: "set (requested [q]) \<subseteq> A \<Longrightarrow> asks A (arr_send ok q)"
  by (simp add: asks_def arr_send_def)

lemma asks_await:
  assumes "asks A m" and "\<And>a. asks A (f a)"
  shows "asks A (await m f)"
  unfolding asks_def
proof
  fix s
  from assms(1) obtain l where l: "arr_log (snd (m s)) = arr_log s @ l" "set (requested l) \<subseteq> A"
    unfolding asks_def by blast
  show "\<exists>l. arr_log (snd (await m f s)) = arr_log s @ l \<and> set (requested l) \<subseteq> A"
  proof (cases "m s")
    case (Pair r s')
    show ?thesis
    proof (cases r)
      case (Inl e)
      with Pair l show ?thesis by (auto simp: await_def)
    next
      case (Inr a)
      from assms(2) [of a] obtain k where
        k: "arr_log (snd (f a s')) = arr_log s' @ k" "set (requested k) \<subseteq> A"
        unfolding asks_def by blast
      with Pair Inr l have "arr_log (snd (await m f s)) = arr_log s @ (l @ k)"
        "set (requested (l @ k)) \<subseteq> A"
        by (auto simp: await_def)
      then show ?thesis by blast
    qed
  qed
qed

lemma asks_get_quality_profile_id: "asks A (get_quality_profile_id nm)"
  unfolding asks_def
proof
  fix s
  have "asks A get_quality_profiles"
    unfolding get_quality_profiles_def
    by (intro asks_await asks_arr_send asks_raise_for_status asks_json) simp
  then have "asks A (await get_quality_profiles (\<lambda>profiles s'.
        case find (\<lambda>profile. lower (fst profile) = lower nm) profiles of
          Some profile \<Rightarrow>
            (Inr (Some (snd profile)), s'\<lparr>cached_quality_profile_id := Some (snd profile)\<rparr>)
        | None \<Rightarrow> (Inr None, s')))"
    by (rule asks_await) (simp add: asks_def split: option.splits)
  then show "\<exists>l. arr_log (snd (get_quality_profile_id nm s)) = arr_log s @ l
                \<and> set (requested l) \<subseteq> A"
    by (simp add: get_quality_profile_id_def asks_def)
qed

lemma asks_get_root_folder_path: "asks A (get_root_folder_path path)"
  unfolding get_root_folder_path_def get_root_folders_def
  by (intro asks_await asks_arr_send asks_raise_for_status asks_json)
     (simp_all add: asks_return split: option.splits list.splits)

lemma asks_post_tag: "asks A (post_tag nm)"
  unfolding post_tag_def
  by (intro asks_await asks_arr_send asks_raise_for_status) (simp_all add: asks_def)

lemma asks_get_or_create_tag: "asks A (get_or_create_tag nm)"
  unfolding asks_def
proof
  fix s
  have "asks A get_tags"
    unfolding get_tags_def
    by (intro asks_await asks_arr_send asks_raise_for_status asks_json) simp
  then have "asks A (await get_tags (\<lambda>all_tags s'.
            case find (\<lambda>tag. lower (fst tag) = lower nm) all_tags of
              Some tag \<Rightarrow> (Inr (snd tag), s'\<lparr>cached_tag_id := Some (snd tag)\<rparr>)
            | None \<Rightarrow> post_tag nm s'))"
    using asks_post_tag [of A nm]
    by (intro asks_await) (auto simp: asks_def split: option.splits)
  then show "\<exists>l. arr_log (snd (get_or_create_tag nm s)) = arr_log s @ l
                \<and> set (requested l) \<subseteq> A"
    by (auto simp: get_or_create_tag_def asks_def split: option.splits)
qed

lemma asks_tag_ids_loop: "asks A (tag_ids_loop nms tag_ids)"
proof (induction nms arbitrary: tag_ids)
  case Nil
  then show ?case by (simp add: asks_def)
next
  case (Cons nm rest)
  have "tag_ids_loop (nm # rest) tag_ids =
          await (get_or_create_tag nm) (\<lambda>tag_id. tag_ids_loop rest (tag_ids @ [tag_id]))"
    by (intro ext) (simp add: await_def)
  with Cons asks_get_or_create_tag [of A nm] show ?case
    by (simp add: asks_await)
qed

lemma asks_post_title: "asks A (post_title i tag_ids)"
  unfolding post_title_def
  by (intro asks_await asks_arr_send) (simp_all add: asks_def return_def)

lemma asks_register_title: "asks A (register_title i tgs)"
  unfolding asks_def
proof
  fix s :: arr
  have "asks A (await (get_quality_profile_id (quality_profile s)) (\<lambda>profile_id.
       if \<not> truthy profile_id then return None
       else await (get_root_folder_path (root_folder s)) (\<lambda>folder.
         if \<not> truthy_seq folder then return None
         else await (tag_ids_loop (py_or_seq tgs [default_tag s]) [])
                (\<lambda>tag_ids. post_title i tag_ids))))"
    by (intro asks_await asks_get_quality_profile_id asks_get_root_folder_path
          asks_tag_ids_loop asks_post_title asks_return
        | simp only: if_split [where P = "asks A"] | intro conjI impI)+
  then show "\<exists>l. arr_log (snd (register_title i tgs s)) = arr_log s @ l
                \<and> set (requested l) \<subseteq> A"
    by (simp add: register_title_def asks_def)
qed

lemma asks_get_movie: "i \<in> A \<Longrightarrow> asks A (get_movie_by_tmdb_id i)"
  unfolding get_movie_by_tmdb_id_def
  by (intro asks_await asks_arr_send asks_raise_for_status asks_json) simp

lemma asks_lookup_movie: "asks A (lookup_movie i)"
  unfolding lookup_movie_def
  by (intro asks_await asks_arr_send asks_raise_for_status asks_json asks_return
      | simp only: if_split [where P = "asks A"] | intro conjI impI | simp)+

lemma asks_add_movie: "i \<in> A \<Longrightarrow> asks A (add_movie i tgs)"
  unfolding add_movie_def movie_exists_def
  by (intro asks_await asks_get_movie asks_lookup_movie asks_register_title asks_return
      | simp only: if_split [where P = "asks A"] | intro conjI impI | assumption)+

lemma add_movie_first:
  fixes s :: arr
  shows "\<exists>l. arr_log (snd (add_movie i tgs s)) = arr_log s @ GetTitle i # l"
proof -
  obtain r s' where a: "arr_send 200 (GetTitle i) s = (r, s')" by (cases "arr_send 200 (GetTitle i) s")
  then have s': "arr_log s' = arr_log s @ [GetTitle i]" by (auto simp: arr_send_def)
  have grow: "\<exists>k. arr_log (snd (f s')) = arr_log s' @ k" if "asks UNIV f" for f :: "(arr, int option) action"
    using that unfolding asks_def by blast
  let ?rest = "\<lambda>status_code.
      await (await (await (raise_for_status status_code)
                     (\<lambda>_. json (\<lambda>s. if i \<in> set (titles s) then Some i else None)))
               (\<lambda>movie. return (movie \<noteq> None)))
        (\<lambda>exists.
           if exists then get_movie_by_tmdb_id i
           else await (lookup_movie i) (\<lambda>movie_data.
             if movie_data = None then return None else register_title i tgs))"
  have e: "add_movie i tgs s = (case r of Inl e \<Rightarrow> (Inl e, s') | Inr c \<Rightarrow> ?rest c s')"
    using a by (simp add: add_movie_def movie_exists_def get_movie_by_tmdb_id_def await_def
        split: sum.splits prod.splits)
  show ?thesis
  proof (cases r)
    case (Inl x)
    with e s' show ?thesis by simp
  next
    case (Inr c)
    have "asks UNIV (?rest c)"
      by (intro asks_await asks_get_movie asks_lookup_movie asks_register_title asks_return
          asks_raise_for_status asks_json
          | simp only: if_split [where P = "asks UNIV"] | intro conjI impI | simp)+
    from grow [OF this] obtain k where "arr_log (snd (?rest c s')) = arr_log s' @ k" by blast
    with e Inr s' show ?thesis by simp
  qed
qed

lemma add_movie_log:
  fixes s :: arr
  shows "\<exists>l. arr_log (snd (add_movie i tgs s)) = arr_log s @ l \<and> set (requested l) = {i}"
proof -
  from asks_add_movie [of i "{i}" tgs] obtain l where
    l: "arr_log (snd (add_movie i tgs s)) = arr_log s @ l" "set (requested l) \<subseteq> {i}"
    unfolding asks_def by blast
  from add_movie_first [of i tgs s] l(1) obtain k where "l = GetTitle i # k" by auto
  with l show ?thesis by auto
qed

lemma request_item_cases:
  "sonarr w = Some s \<Longrightarrow> ci_tvdb_id item = Some i \<Longrightarrow> i \<noteq> 0 \<Longrightarrow>
     request_item True tgs item w = with_sonarr (add_series i tgs s) w"
  "radarr w = Some r \<Longrightarrow> ci_tmdb_id item = Some i \<Longrightarrow> i \<noteq> 0 \<Longrightarrow>
     request_item False tgs item w = with_radarr (add_movie i tgs r) w"
  "sonarr w = None \<or> ci_tvdb_id item = None \<or> ci_tvdb_id item = Some 0 \<Longrightarrow>
     request_item True tgs item w = (Inr (), w)"
  "radarr w = None \<or> ci_tmdb_id item = None \<or> ci_tmdb_id item = Some 0 \<Longrightarrow>
     request_item False tgs item w = (Inr (), w)"
  by (auto simp: request_item_def truthy_def split: option.splits)

lemma request_item_unmanaged:
  "manager k w = None \<Longrightarrow> request_item k tgs item w = (Inr (), w)"
  by (cases k) (simp_all add: manager_def request_item_cases)

lemma request_item_log:
  assumes "manager k w = Some a"
  shows "\<exists>a' l. manager k (snd (request_item k tgs item w)) = Some a'
           \<and> manager (\<not> k) (snd (request_item k tgs item w)) = manager (\<not> k) w
           \<and> arr_log a' = arr_log a @ l
           \<and> set (requested l) = {i. i \<noteq> 0 \<and> catalog_id k item = Some i}"
proof (cases "\<exists>i. i \<noteq> 0 \<and> catalog_id k item = Some i")
  case False
  then have "catalog_id k item = None \<or> catalog_id k item = Some 0"
    by (cases "catalog_id k item") auto
  then have "request_item k tgs item w = (Inr (), w)"
    by (cases k) (simp_all add: catalog_id_def request_item_cases)
  moreover from False have "{i. i \<noteq> 0 \<and> catalog_id k item = Some i} = {}" by auto
  ultimately show ?thesis using assms by simp
next
  case True
  then obtain i where i: "i \<noteq> 0" "catalog_id k item = Some i" by blast
  then have ids: "{j. j \<noteq> 0 \<and> catalog_id k item = Some j} = {i}" by auto
  from add_movie_log [of i tgs a] obtain l where
    l: "arr_log (snd (add_movie i tgs a)) = arr_log a @ l" "set (requested l) = {i}" by blast
  show ?thesis
  proof (cases k)
    case True
    with assms i have "request_item k tgs item w = with_sonarr (add_movie i tgs a) w"
      by (simp add: manager_def catalog_id_def request_item_cases add_series_eq)
    then have "sonarr (snd (request_item k tgs item w)) = Some (snd (add_movie i tgs a))"
      "radarr (snd (request_item k tgs item w)) = radarr w"
      by (simp_all add: with_sonarr_def split: prod.splits sum.splits)
    with True l ids show ?thesis by (simp add: manager_def)
  next
    case False
    with assms i have "request_item k tgs item w = with_radarr (add_movie i tgs a) w"
      by (simp add: manager_def catalog_id_def request_item_cases)
    then have "radarr (snd (request_item k tgs item w)) = Some (snd (add_movie i tgs a))"
      "sonarr (snd (request_item k tgs item w)) = sonarr w"
      by (simp_all add: with_radarr_def split: prod.splits sum.splits)
    with False l ids show ?thesis by (simp add: manager_def)
  qed
qed

lemma request_loop_unmanaged:
  "manager k w = None \<Longrightarrow> request_loop k tgs xs w = (Inr (), w)"
  by (induction xs) (simp_all add: request_item_unmanaged)

lemma request_loop_log:
  assumes "request_loop k tgs xs w = (Inr u, w')" and "manager k w = Some a"
  shows "\<exists>a' l. manager k w' = Some a' \<and> manager (\<not> k) w' = manager (\<not> k) w
           \<and> arr_log a' = arr_log a @ l
           \<and> set (requested l) = {i. i \<noteq> 0 \<and> Some i \<in> catalog_id k ` set xs}"
  using assms
proof (induction xs arbitrary: w a)
  case Nil
  then show ?case by simp
next
  case (Cons item rest)
  obtain r wa where ri: "request_item k tgs item w = (r, wa)"
    by (cases "request_item k tgs item w")
  with Cons.prems(1) obtain v where r: "r = Inr v" and rest: "request_loop k tgs rest wa = (Inr u, w')"
    by (cases r) simp_all
  from request_item_log [OF Cons.prems(2), of tgs item] ri obtain aa la where
    aa: "manager k wa = Some aa" "manager (\<not> k) wa = manager (\<not> k) w"
      "arr_log aa = arr_log a @ la"
      "set (requested la) = {i. i \<noteq> 0 \<and> catalog_id k item = Some i}"
    by auto
  from Cons.IH [OF rest aa(1)] obtain a' lb where
    a': "manager k w' = Some a'" "manager (\<not> k) w' = manager (\<not> k) wa"
      "arr_log a' = arr_log aa @ lb"
      "set (requested lb) = {i. i \<noteq> 0 \<and> Some i \<in> catalog_id k ` set rest}"
    by blast
  have "arr_log a' = arr_log a @ (la @ lb)"
    using aa(3) a'(3) by simp
  moreover have "set (requested (la @ lb)) = {i. i \<noteq> 0 \<and> Some i \<in> catalog_id k ` set (item # rest)}"
    using aa(4) a'(4) by auto
  ultimately show ?case using a'(1,2) aa(2) by metis
qed

lemma add_missing_to_arr_eq:
  "add_missing_to_arr c w =
     request_loop (series_kind c)
       (when_truthy_seq (if truthy_seq (item_radarr_tag (config c)) then item_radarr_tag (config c)
                         else item_sonarr_tag (config c)) (\<lambda>t. [t]))
       (filter (\<lambda>item. \<not> in_library item) (items c)) w"
  by (simp add: add_missing_to_arr_def series_kind_def Let_def)

lemma add_missing_to_arr_log:
  assumes "fst (add_missing_to_arr c w) = Inr ()" and "manager (series_kind c) w = Some a"
  shows "\<exists>a'. manager (series_kind c) (snd (add_missing_to_arr c w)) = Some a'
           \<and> manager (\<not> series_kind c) (snd (add_missing_to_arr c w)) = manager (\<not> series_kind c) w
           \<and> take (length (arr_log a)) (arr_log a') = arr_log a
           \<and> set (requested (drop (length (arr_log a)) (arr_log a')))
               = {i. i \<noteq> 0 \<and> (\<exists>item \<in> set (items c).
                    \<not> in_library item \<and> catalog_id (series_kind c) item = Some i)}"
proof -
  let ?tgs = "when_truthy_seq (if truthy_seq (item_radarr_tag (config c))
                then item_radarr_tag (config c) else item_sonarr_tag (config c)) (\<lambda>t. [t])"
  let ?xs = "filter (\<lambda>item. \<not> in_library item) (items c)"
  from assms(1) have "request_loop (series_kind c) ?tgs ?xs w = (Inr (), snd (add_missing_to_arr c w))"
    by (simp add: add_missing_to_arr_eq [symmetric] prod_eq_iff)
  from request_loop_log [OF this assms(2)] obtain a' l where
    a': "manager (series_kind c) (snd (add_missing_to_arr c w)) = Some a'"
      "manager (\<not> series_kind c) (snd (add_missing_to_arr c w)) = manager (\<not> series_kind c) w"
      "arr_log a' = arr_log a @ l"
      "set (requested l) = {i. i \<noteq> 0 \<and> Some i \<in> catalog_id (series_kind c) ` set ?xs}"
    by blast
  have "{i. i \<noteq> 0 \<and> Some i \<in> catalog_id (series_kind c) ` set ?xs}
          = {i. i \<noteq> 0 \<and> (\<exists>item \<in> set (items c).
                    \<not> in_library item \<and> catalog_id (series_kind c) item = Some i)}"
    by (auto simp: image_iff)
  with a' show ?thesis by simp
qed

lemma add_movie_registered:
  "i \<in> set (titles s) \<Longrightarrow> arr_fault s (GetTitle i) = None \<Longrightarrow>
   add_movie i tgs s = (Inr (Some i), s\<lparr>arr_log := arr_log s @ [GetTitle i, GetTitle i]\<rparr>)"
  by (simp add: add_movie_def movie_exists_def get_movie_by_tmdb_id_def arr_send_def
      response_def raise_for_status_def is_success_def json_def await_def return_def)

text \<open>
  Claim C8, as stated, at two concrete inputs. In a collection whose first item has a TVDB
  identifier, a missing item without one is not requested from any manager, with both
  managers configured: the world after the dispatch is the world before it. And a missing
  movie is not requested when no Radarr client is configured.
\<close>

theorem missing_item_not_requested:
  "items mixed = [(in_library_item ''s'')\<lparr>ci_tvdb_id := Some 1399\<rparr>, missing_item (Some 604) None]
   \<and> \<not> in_library (missing_item (Some 604) None)
   \<and> radarr world0 = Some arr0 \<and> sonarr world0 = Some arr0
   \<and> add_missing_to_arr mixed world0 = (Inr (), world0)
   \<and> \<not> in_library (collection_item wanted_item None)
   \<and> add_missing_to_arr wanted (world0\<lparr>radarr := None\<rparr>) = (Inr (), world0\<lparr>radarr := None\<rparr>)"
  by (simp add: mixed_def wanted_def missing_item_def in_library_item_def world0_def
      add_missing_to_arr_def request_item_def collection_item_def wanted_item_def no_item_def
      matrix_first_def truthy_def truthy_seq_def when_truthy_seq_def popular_config_def
      no_config_def Let_def)

text \<open>
  Claim C8, amended. The dispatcher goes through the items whose \<open>in_library\<close> flag is
  false with one media kind for all of them: series iff the first item of the whole
  collection has a \<open>tvdb_id\<close>. The identifier an item is requested with is its \<open>tvdb_id\<close>
  for series and its \<open>tmdb_id\<close> for movies, and the manager is Sonarr for series and Radarr
  for movies. Whenever the dispatch returns: the manager of the kind has kept the requests
  it had and has since been asked about exactly the identifiers, present and not zero, of
  the missing items (every such item is requested, and nothing else is), and the other
  manager is as it was. With no manager configured for the kind nothing is requested and
  nothing changes. Item by item: an item is requested from Sonarr when the kind is series, a
  Sonarr client is configured and the item's \<open>tvdb_id\<close> is present and not zero; from
  Radarr when the kind is movie, a Radarr client is configured and the item's \<open>tmdb_id\<close>
  is present and not zero; otherwise it is passed over. A title the manager has registered
  already is a success that registers nothing: two reads, no POST, the existing record
  returned.
\<close>

theorem dispatch_by_first_item:
  "add_missing_to_arr c w =
     request_loop (series_kind c)
       (when_truthy_seq (if truthy_seq (item_radarr_tag (config c)) then item_radarr_tag (config c)
                         else item_sonarr_tag (config c)) (\<lambda>t. [t]))
       (filter (\<lambda>item. \<not> in_library item) (items c)) w
   \<and> (fst (add_missing_to_arr c w) = Inr () \<and> manager (series_kind c) w = Some m \<longrightarrow>
        (\<exists>m'. manager (series_kind c) (snd (add_missing_to_arr c w)) = Some m'
           \<and> manager (\<not> series_kind c) (snd (add_missing_to_arr c w))
               = manager (\<not> series_kind c) w
           \<and> take (length (arr_log m)) (arr_log m') = arr_log m
           \<and> set (requested (drop (length (arr_log m)) (arr_log m')))
               = {i. i \<noteq> 0 \<and> (\<exists>item \<in> set (items c).
                    \<not> in_library item \<and> catalog_id (series_kind c) item = Some i)}))
   \<and> (manager (series_kind c) w = None \<longrightarrow> add_missing_to_arr c w = (Inr (), w))
   \<and> (sonarr w = Some s \<and> ci_tvdb_id item = Some i \<and> i \<noteq> 0 \<longrightarrow>
        request_item True tgs item w = with_sonarr (add_series i tgs s) w)
   \<and> (radarr w = Some r \<and> ci_tmdb_id item = Some i \<and> i \<noteq> 0 \<longrightarrow>
        request_item False tgs item w = with_radarr (add_movie i tgs r) w)
   \<and> (sonarr w = None \<or> ci_tvdb_id item = None \<or> ci_tvdb_id item = Some 0 \<longrightarrow>
        request_item True tgs item w = (Inr (), w))
   \<and> (radarr w = None \<or> ci_tmdb_id item = None \<or> ci_tmdb_id item = Some 0 \<longrightarrow>
        request_item False tgs item w = (Inr (), w))
   \<and> (i \<in> set (titles a) \<and> arr_fault a (GetTitle i) = None \<longrightarrow>
        add_movie i tgs a = (Inr (Some i), a\<lparr>arr_log := arr_log a @ [GetTitle i, GetTitle i]\<rparr>)
        \<and> add_series i tgs a = (Inr (Some i), a\<lparr>arr_log := arr_log a @ [GetTitle i, GetTitle i]\<rparr>))"
proof -
  note 1 = add_missing_to_arr_eq [of c w]
  have 2: "fst (add_missing_to_arr c w) = Inr () \<and> manager (series_kind c) w = Some m \<longrightarrow>
        (\<exists>m'. manager (series_kind c) (snd (add_missing_to_arr c w)) = Some m'
           \<and> manager (\<not> series_kind c) (snd (add_missing_to_arr c w))
               = manager (\<not> series_kind c) w
           \<and> take (length (arr_log m)) (arr_log m') = arr_log m
           \<and> set (requested (drop (length (arr_log m)) (arr_log m')))
               = {i. i \<noteq> 0 \<and> (\<exists>item \<in> set (items c).
                    \<not> in_library item \<and> catalog_id (series_kind c) item = Some i)})"
    using add_missing_to_arr_log [of c w m] by blast
  have 3: "manager (series_kind c) w = None \<longrightarrow> add_missing_to_arr c w = (Inr (), w)"
    by (simp add: add_missing_to_arr_eq request_loop_unmanaged)
  have 4: "sonarr w = Some s \<and> ci_tvdb_id item = Some i \<and> i \<noteq> 0 \<longrightarrow>
        request_item True tgs item w = with_sonarr (add_series i tgs s) w"
    and 5: "radarr w = Some r \<and> ci_tmdb_id item = Some i \<and> i \<noteq> 0 \<longrightarrow>
        request_item False tgs item w = with_radarr (add_movie i tgs r) w"
    and 6: "sonarr w = None \<or> ci_tvdb_id item = None \<or> ci_tvdb_id item = Some 0 \<longrightarrow>
        request_item True tgs item w = (Inr (), w)"
    and 7: "radarr w = None \<or> ci_tmdb_id item = None \<or> ci_tmdb_id item = Some 0 \<longrightarrow>
        request_item False tgs item w = (Inr (), w)"
    using request_item_cases [where w = w and item = item and tgs = tgs] by blast+
  have 8: "i \<in> set (titles a) \<and> arr_fault a (GetTitle i) = None \<longrightarrow>
        add_movie i tgs a = (Inr (Some i), a\<lparr>arr_log := arr_log a @ [GetTitle i, GetTitle i]\<rparr>)
        \<and> add_series i tgs a = (Inr (Some i), a\<lparr>arr_log := arr_log a @ [GetTitle i, GetTitle i]\<rparr>)"
    by (simp add: add_movie_registered add_series_eq)
  from 1 2 3 4 5 6 7 8 show ?thesis by (intro conjI)
qed

text \<open>
  A collection of movies with three missing items: the first is registered with Radarr, the
  second has no identifier and is passed over, the third is asked about and not found;
  nothing is sent to Sonarr. As a series the first would be passed over; without a Radarr
  client nothing happens; asked again about a registered title, Radarr only reads.
\<close>

theorem dispatch_by_first_item_witness:
  "fst (add_missing_to_arr backlog world0) = Inr ()
   \<and> map_option titles (radarr (snd (add_missing_to_arr backlog world0))) = Some [604]
   \<and> map_option (requested \<circ> arr_log) (radarr (snd (add_missing_to_arr backlog world0)))
       = Some [604, 605]
   \<and> sonarr (snd (add_missing_to_arr backlog world0)) = sonarr world0
   \<and> {i. i \<noteq> 0 \<and> (\<exists>item \<in> set (items backlog).
          \<not> in_library item \<and> catalog_id (series_kind backlog) item = Some i)} = {604, 605}
   \<and> add_missing_to_arr backlog (world0\<lparr>radarr := None\<rparr>) = (Inr (), world0\<lparr>radarr := None\<rparr>)
   \<and> request_item False None (missing_item (Some 604) None) world0
       = with_radarr (add_movie 604 None arr0) world0
   \<and> request_item True None (missing_item (Some 604) None) world0 = (Inr (), world0)
   \<and> add_movie 604 None (arr0\<lparr>titles := [604]\<rparr>)
       = (Inr (Some 604), arr0\<lparr>titles := [604], arr_log := [GetTitle 604, GetTitle 604]\<rparr>)"
proof -
  have k: "series_kind backlog = False"
    by (simp add: series_kind_def backlog_def in_library_item_def)
  have a: "radarr world0 = Some arr0" "sonarr world0 = Some arr0"
    "manager False world0 = Some arr0" "manager False (world0\<lparr>radarr := None\<rparr>) = None"
    by (simp_all add: world0_def manager_def)
  have b: "ci_tmdb_id (missing_item (Some 604) None) = Some 604"
    "ci_tvdb_id (missing_item (Some 604) None) = None"
    by (simp_all add: missing_item_def)
  have c: "(604 :: int) \<in> set (titles (arr0\<lparr>titles := [604]\<rparr>))"
    "arr_fault (arr0\<lparr>titles := [604]\<rparr>) (GetTitle 604) = None"
    by (simp_all add: arr0_def)
  have d: "fst (add_missing_to_arr backlog world0) = Inr ()
    \<and> map_option titles (radarr (snd (add_missing_to_arr backlog world0))) = Some [604]
    \<and> map_option (requested \<circ> arr_log) (radarr (snd (add_missing_to_arr backlog world0)))
        = Some [604, 605]
    \<and> sonarr (snd (add_missing_to_arr backlog world0)) = sonarr world0"
    by (simp add: run_defs arr_defs await_def return_def world0_def arr0_def backlog_def
        missing_item_def in_library_item_def popular_config_def no_config_def
        lower_def lower_char_def)
  have e: "{i. i \<noteq> 0 \<and> (\<exists>item \<in> set (items backlog).
          \<not> in_library item \<and> catalog_id False item = Some i)} = {604, 605}"
    by (auto simp: backlog_def missing_item_def in_library_item_def catalog_id_def)
  from dispatch_by_first_item [where c = backlog and w = world0 and m = arr0 and r = arr0
      and s = arr0 and item = "missing_item (Some 604) None" and i = 604 and tgs = None
      and a = "arr0\<lparr>titles := [604]\<rparr>", THEN conjunct2]
    dispatch_by_first_item [where c = backlog and w = "world0\<lparr>radarr := None\<rparr>" and i = 604
      and a = "arr0\<lparr>titles := [604]\<rparr>" and item = "missing_item (Some 604) None"
      and tgs = None, THEN conjunct2]
    k a b c d e
  show ?thesis by (simp add: arr0_def)
qed

end
